theory Spec2Isabelle
  imports Complex_Main
begin

section \<open>Enumerations (package enum)\<close>

text \<open>
  Identifiers are UUIDs in the source; here they are natural numbers, with \<open>uuid_Nil = 0\<close>
  for the all-zero UUID. Points in time are natural numbers as well. Go's \<open>float64\<close>
  coordinates and distances are real numbers in this development, so rounding and NaN
  are outside of it.
\<close>

type_synonym uuid = nat
type_synonym timestamp = nat

definition uuid_Nil :: uuid where
  "uuid_Nil = 0"

text \<open>\<open>CaseType\<close> is a Go string type; the three constants are the values the
  request validator lets through.\<close>

type_synonym CaseType = string

definition CaseTypeAnimal :: CaseType where
  "CaseTypeAnimal = ''animal''"

definition CaseTypeFlood :: CaseType where
  "CaseTypeFlood = ''flood''"

definition CaseTypeAccident :: CaseType where
  "CaseTypeAccident = ''accident''"

datatype CaseStatus =
    CaseStatusPending
  | CaseStatusAccepted
  | CaseStatusInProgress
  | CaseStatusResolved
  | CaseStatusCancelled
  | CaseStatusExpired

definition IsActive :: "CaseStatus \<Rightarrow> bool" where
  "IsActive s \<longleftrightarrow> s = CaseStatusPending \<or> s = CaseStatusAccepted \<or> s = CaseStatusInProgress"

datatype UrgencyLevel = UrgencyLow | UrgencyMedium | UrgencyHigh | UrgencyCritical

datatype VolunteerStatus =
    VolunteerStatusAccepted
  | VolunteerStatusEnRoute
  | VolunteerStatusOnSite
  | VolunteerStatusHandling
  | VolunteerStatusCompleted
  | VolunteerStatusWithdrawn

datatype UpdateType =
    UpdateTypeStatusChange
  | UpdateTypeVolunteerJoined
  | UpdateTypeVolunteerUpdate
  | UpdateTypeVolunteerWithdrawn
  | UpdateTypeReporterUpdate
  | UpdateTypeSystem

section \<open>GeoMath (entity/geopoint.go)\<close>

record GeoPoint =
  Latitude :: real
  Longitude :: real

definition NewGeoPoint :: "real \<Rightarrow> real \<Rightarrow> GeoPoint" where
  "NewGeoPoint lat lng = \<lparr>Latitude = lat, Longitude = lng\<rparr>"

text \<open>Go's \<open>math.Atan2(y, x)\<close> on real arguments: the angle of the point \<open>(x, y)\<close>
  in \<open>(-\<pi>, \<pi>]\<close>.\<close>

definition Atan2 :: "real \<Rightarrow> real \<Rightarrow> real" where
  "Atan2 y x =
     (if 0 < x then arctan (y / x)
      else if x < 0 \<and> 0 \<le> y then arctan (y / x) + pi
      else if x < 0 then arctan (y / x) - pi
      else if 0 < y then pi / 2
      else if y < 0 then - (pi / 2)
      else 0)"

definition earthRadiusKm :: real where
  "earthRadiusKm = 6371"

text \<open>\<open>(*GeoPoint).DistanceKm\<close>; both receivers are non-nil at every call site
  modelled here, so the nil guard that returns 0 is not a branch.\<close>

definition DistanceKm :: "GeoPoint \<Rightarrow> GeoPoint \<Rightarrow> real" where
  "DistanceKm g other =
     (let lat1Rad = Latitude g * (pi / 180);
          lat2Rad = Latitude other * (pi / 180);
          deltaLat = (Latitude other - Latitude g) * (pi / 180);
          deltaLng = (Longitude other - Longitude g) * (pi / 180);
          a = sin (deltaLat / 2) * sin (deltaLat / 2)
              + cos lat1Rad * cos lat2Rad * sin (deltaLng / 2) * sin (deltaLng / 2);
          c = 2 * Atan2 (sqrt a) (sqrt (1 - a))
      in earthRadiusKm * c)"

record BoundingBox =
  MinLat :: real
  MaxLat :: real
  MinLng :: real
  MaxLng :: real

definition kmPerDegLat :: real where
  "kmPerDegLat = 111"

text \<open>\<open>NewBoundingBox\<close>. Where \<open>cos (lat * pi / 180) = 0\<close> the Go quotient is
  infinite or NaN while the HOL quotient is 0; no statement below uses the longitude
  bounds at such a latitude.\<close>

definition NewBoundingBox :: "real \<Rightarrow> real \<Rightarrow> real \<Rightarrow> BoundingBox" where
  "NewBoundingBox lat lng radiusKm =
     (let latDelta = radiusKm / kmPerDegLat;
          lngDelta = radiusKm / (kmPerDegLat * cos (lat * pi / 180))
      in \<lparr>MinLat = lat - latDelta, MaxLat = lat + latDelta,
          MinLng = lng - lngDelta, MaxLng = lng + lngDelta\<rparr>)"

definition Contains :: "BoundingBox \<Rightarrow> real \<Rightarrow> real \<Rightarrow> bool" where
  "Contains bb lat lng \<longleftrightarrow>
     lat \<ge> MinLat bb \<and> lat \<le> MaxLat bb \<and> lng \<ge> MinLng bb \<and> lng \<le> MaxLng bb"

section \<open>Entities (package entity)\<close>

text \<open>
  Field names carry a prefix for their struct, since the Go structs share names such as
  \<open>ID\<close>, \<open>CaseID\<close> and \<open>Status\<close>. A Go pointer field is an \<open>option\<close>.
  The bookkeeping column \<open>updated_at\<close> and the relations that are only ever preloaded
  for display (reporter, media, volunteers, updates) are left out.
\<close>

record CaseAnimalDetails =
  ad_ID :: uuid
  ad_CaseID :: uuid
  ad_AnimalType :: string
  ad_AnimalTypeOther :: "string option"
  ad_Condition :: string
  ad_ConditionDescription :: "string option"
  ad_EstimatedCount :: int

record CaseFloodDetails =
  fd_ID :: uuid
  fd_CaseID :: uuid
  fd_PeopleCount :: "int option"
  fd_HasChildren :: bool
  fd_HasElderly :: bool
  fd_HasDisabled :: bool
  fd_WaterLevelCm :: "int option"
  fd_FloorLevel :: "int option"
  fd_HasPower :: "bool option"
  fd_HasFoodWater :: "bool option"
  fd_MedicalNeeds :: "string option"

record CaseAccidentDetails =
  acd_ID :: uuid
  acd_CaseID :: uuid
  acd_AccidentType :: string
  acd_VictimCount :: int
  acd_HasUnconscious :: bool
  acd_HasBleeding :: bool
  acd_HasFracture :: bool
  acd_IsTrapped :: bool
  acd_HazardPresent :: bool
  acd_HazardDescription :: "string option"

record Case =
  c_ID :: uuid
  c_CaseType :: CaseType
  c_Status :: CaseStatus
  c_Urgency :: UrgencyLevel
  c_Latitude :: real
  c_Longitude :: real
  c_Address :: "string option"
  c_LocationNote :: "string option"
  c_Title :: string
  c_Description :: "string option"
  c_ReporterID :: "uuid option"
  c_ReporterName :: "string option"
  c_ReporterPhone :: string
  c_IsAnonymous :: bool
  c_VolunteerCount :: int
  c_MaxVolunteers :: int
  c_CreatedAt :: timestamp
  c_AcceptedAt :: "timestamp option"
  c_ResolvedAt :: "timestamp option"
  c_AnimalDetails :: "CaseAnimalDetails option"
  c_FloodDetails :: "CaseFloodDetails option"
  c_AccidentDetails :: "CaseAccidentDetails option"

definition GetLocation :: "Case \<Rightarrow> GeoPoint" where
  "GetLocation c = NewGeoPoint (c_Latitude c) (c_Longitude c)"

record CaseVolunteer =
  cv_ID :: uuid
  cv_CaseID :: uuid
  cv_VolunteerID :: uuid
  cv_Status :: VolunteerStatus
  cv_AcceptedLatitude :: "real option"
  cv_AcceptedLongitude :: "real option"
  cv_DistanceKm :: "real option"
  cv_AcceptedAt :: timestamp
  cv_ArrivedAt :: "timestamp option"
  cv_CompletedAt :: "timestamp option"
  cv_Note :: "string option"

record CaseUpdate =
  upd_ID :: uuid
  upd_CaseID :: uuid
  upd_UpdateType :: UpdateType
  upd_UserID :: "uuid option"
  upd_Content :: "string option"
  upd_OldStatus :: "CaseStatus option"
  upd_NewStatus :: "CaseStatus option"
  upd_MediaURLs :: "string list"
  upd_CreatedAt :: timestamp

text \<open>Of a user, the columns that the case lifecycle and the matcher read or write.\<close>

record User =
  u_ID :: uuid
  u_DisplayName :: string
  u_IsAvailable :: bool
  u_Latitude :: "real option"
  u_Longitude :: "real option"
  u_TotalCasesReported :: int
  u_TotalCasesResolved :: int
  u_IsActive :: bool

record UserPreferences =
  up_ID :: uuid
  up_UserID :: uuid
  up_PushEnabled :: bool
  up_CaseTypes :: "string list"
  up_NotificationRadiusKm :: int
  up_CenterLatitude :: "real option"
  up_CenterLongitude :: "real option"
  up_UseCurrentLocation :: bool
  up_QuietHoursStart :: "string option"
  up_QuietHoursEnd :: "string option"

section \<open>Errors (package apperror)\<close>

text \<open>The SQL statements the repositories issue; each can be rejected by the driver.\<close>

datatype Stmt =
    InsertCase
  | InsertAnimalDetails
  | InsertFloodDetails
  | InsertAccidentDetails
  | InsertCaseUpdate
  | SelectCase
  | SaveCase
  | UpdateCaseStatus
  | CancelCase
  | InsertCaseVolunteer
  | IncrementVolunteerCount
  | AcceptPendingCase
  | SelectCaseVolunteer
  | UpdateCaseVolunteerStatus
  | ReactivateCaseVolunteer
  | WithdrawCaseVolunteer
  | DecrementVolunteerCount
  | SelectCaseVolunteers
  | SelectUser
  | IncrementUserCasesReported
  | IncrementUserCasesResolved
  | SelectAvailableUsers

text \<open>An \<open>AppError\<close> carries its code, message and HTTP status; an error handed up
  from the driver is \<open>StorageError\<close> of the statement that failed.\<close>

datatype error = AppError string string nat | StorageError Stmt

definition NewAppError :: "string \<Rightarrow> string \<Rightarrow> nat \<Rightarrow> error" where
  "NewAppError code message status = AppError code message status"

definition ErrForbidden :: error where
  "ErrForbidden = AppError ''FORBIDDEN'' ''Forbidden'' 403"

definition ErrUserNotFound :: error where
  "ErrUserNotFound = AppError ''USER_NOT_FOUND'' ''User not found'' 404"

definition ErrCaseNotFound :: error where
  "ErrCaseNotFound = AppError ''CASE_NOT_FOUND'' ''Case not found'' 404"

section \<open>Storage\<close>

text \<open>
  The database is its tables, each a list of rows in insertion order, and a flag that
  tells whether the trigger \<open>update_case_volunteer_count\<close> of the initial schema
  migration is installed. The environment of one call gives the driver's verdict on each
  statement (\<open>fails\<close>), the clock and the UUIDs that \<open>uuid.New()\<close> returns in the
  places where a call can draw one: 0 for the case or volunteer record itself, 1 for a
  detail record, 2 for the initial timeline entry, 3 for a timeline entry of the service.
\<close>

record DB =
  cases :: "Case list"
  case_animal_details :: "CaseAnimalDetails list"
  case_flood_details :: "CaseFloodDetails list"
  case_accident_details :: "CaseAccidentDetails list"
  case_volunteers :: "CaseVolunteer list"
  case_updates :: "CaseUpdate list"
  users :: "User list"
  user_preferences :: "UserPreferences list"
  volunteer_count_trigger :: bool

record Env =
  fails :: "Stmt \<Rightarrow> bool"
  now :: timestamp
  uuid_New :: "nat \<Rightarrow> uuid"

text \<open>\<open>UPDATE t SET ... WHERE P\<close> rewrites every row that satisfies \<open>P\<close>.\<close>

definition update_where :: "('r \<Rightarrow> bool) \<Rightarrow> ('r \<Rightarrow> 'r) \<Rightarrow> 'r list \<Rightarrow> 'r list" where
  "update_where P f rows = map (\<lambda>r. if P r then f r else r) rows"

text \<open>One statement: rejected by the driver, or applied.\<close>

definition exec :: "Env \<Rightarrow> Stmt \<Rightarrow> (DB \<Rightarrow> DB) \<Rightarrow> DB \<Rightarrow> error + DB" where
  "exec env st f tx = (if fails env st then Inl (StorageError st) else Inr (f tx))"

definition and_then :: "error + DB \<Rightarrow> (DB \<Rightarrow> error + DB) \<Rightarrow> error + DB" where
  "and_then r k = (case r of Inl e \<Rightarrow> Inl e | Inr tx \<Rightarrow> k tx)"

text \<open>gorm's \<open>Transaction\<close>: the body's writes are committed when it returns no error
  and rolled back when it returns one. A single statement outside a transaction commits
  by itself, which is the same function with a one-statement body.\<close>

definition Transaction :: "DB \<Rightarrow> (DB \<Rightarrow> error + DB) \<Rightarrow> error option \<times> DB" where
  "Transaction db body = (case body db of Inl e \<Rightarrow> (Some e, db) | Inr db' \<Rightarrow> (None, db'))"

section \<open>caseRepository\<close>

text \<open>The row that \<open>INSERT INTO cases\<close> stores for a struct: the relations are
  omitted, \<open>max_volunteers\<close> takes its column default 5 when the field is zero, and
  \<open>created_at\<close> is stamped when the field is zero.\<close>

definition case_row :: "Env \<Rightarrow> Case \<Rightarrow> Case" where
  "case_row env c =
     c\<lparr>c_MaxVolunteers := (if c_MaxVolunteers c = 0 then 5 else c_MaxVolunteers c),
       c_CreatedAt := (if c_CreatedAt c = 0 then now env else c_CreatedAt c),
       c_AnimalDetails := None, c_FloodDetails := None, c_AccidentDetails := None\<rparr>"

definition new_id :: "Env \<Rightarrow> nat \<Rightarrow> uuid \<Rightarrow> uuid" where
  "new_id env k i = (if i = uuid_Nil then uuid_New env k else i)"

text \<open>The \<open>switch c.CaseType\<close> of \<open>Create\<close>: the detail struct of the case's own
  type, if attached, gets its identifiers and is inserted; detail structs of the other
  two types are not looked at.\<close>

definition create_details :: "Env \<Rightarrow> Case \<Rightarrow> DB \<Rightarrow> error + DB" where
  "create_details env c tx =
     (if c_CaseType c = CaseTypeAnimal then
        (case c_AnimalDetails c of
           None \<Rightarrow> Inr tx
         | Some d \<Rightarrow>
             exec env InsertAnimalDetails
               (\<lambda>t. t\<lparr>case_animal_details := case_animal_details t
                    @ [d\<lparr>ad_ID := new_id env 1 (ad_ID d), ad_CaseID := c_ID c\<rparr>]\<rparr>) tx)
      else if c_CaseType c = CaseTypeFlood then
        (case c_FloodDetails c of
           None \<Rightarrow> Inr tx
         | Some d \<Rightarrow>
             exec env InsertFloodDetails
               (\<lambda>t. t\<lparr>case_flood_details := case_flood_details t
                    @ [d\<lparr>fd_ID := new_id env 1 (fd_ID d), fd_CaseID := c_ID c\<rparr>]\<rparr>) tx)
      else if c_CaseType c = CaseTypeAccident then
        (case c_AccidentDetails c of
           None \<Rightarrow> Inr tx
         | Some d \<Rightarrow>
             exec env InsertAccidentDetails
               (\<lambda>t. t\<lparr>case_accident_details := case_accident_details t
                    @ [d\<lparr>acd_ID := new_id env 1 (acd_ID d), acd_CaseID := c_ID c\<rparr>]\<rparr>) tx)
      else Inr tx)"

text \<open>The struct as \<open>Create\<close> leaves it for the caller: identifiers filled in.\<close>

definition created_case :: "Env \<Rightarrow> Case \<Rightarrow> Case" where
  "created_case env c =
     (case_row env c)\<lparr>
        c_AnimalDetails :=
          (if c_CaseType c = CaseTypeAnimal
           then map_option (\<lambda>d. d\<lparr>ad_ID := new_id env 1 (ad_ID d), ad_CaseID := c_ID c\<rparr>)
                  (c_AnimalDetails c)
           else c_AnimalDetails c),
        c_FloodDetails :=
          (if c_CaseType c = CaseTypeFlood
           then map_option (\<lambda>d. d\<lparr>fd_ID := new_id env 1 (fd_ID d), fd_CaseID := c_ID c\<rparr>)
                  (c_FloodDetails c)
           else c_FloodDetails c),
        c_AccidentDetails :=
          (if c_CaseType c = CaseTypeAccident
           then map_option (\<lambda>d. d\<lparr>acd_ID := new_id env 1 (acd_ID d), acd_CaseID := c_ID c\<rparr>)
                  (c_AccidentDetails c)
           else c_AccidentDetails c)\<rparr>"

definition caseRepository_Create :: "Env \<Rightarrow> DB \<Rightarrow> Case \<Rightarrow> (error option \<times> DB) \<times> Case" where
  "caseRepository_Create env db c0 =
     (let c = c0\<lparr>c_ID := new_id env 0 (c_ID c0)\<rparr> in
      (Transaction db (\<lambda>tx.
         and_then (exec env InsertCase (\<lambda>t. t\<lparr>cases := cases t @ [case_row env c]\<rparr>) tx) (\<lambda>tx.
         and_then (create_details env c tx) (\<lambda>tx.
         exec env InsertCaseUpdate
           (\<lambda>t. t\<lparr>case_updates := case_updates t
                @ [\<lparr>upd_ID = uuid_New env 2, upd_CaseID = c_ID c,
                    upd_UpdateType = UpdateTypeSystem, upd_UserID = None,
                    upd_Content = Some ''Case created'', upd_OldStatus = None,
                    upd_NewStatus = Some (c_Status c), upd_MediaURLs = [],
                    upd_CreatedAt = now env\<rparr>]\<rparr>) tx))),
       created_case env c))"

text \<open>\<open>First(&c, "id = ?", id)\<close>: the row, \<open>nil\<close> when there is none, or the
  driver's error.\<close>

definition caseRepository_GetByID :: "Env \<Rightarrow> DB \<Rightarrow> uuid \<Rightarrow> error + Case option" where
  "caseRepository_GetByID env db i =
     (if fails env SelectCase then Inl (StorageError SelectCase)
      else Inr (find (\<lambda>c. c_ID c = i) (cases db)))"

text \<open>\<open>Save\<close> writes every column of the struct to the row with its primary key.
  Its only caller passes a struct it has just read, so the row exists.\<close>

definition caseRepository_Update :: "Env \<Rightarrow> DB \<Rightarrow> Case \<Rightarrow> error option \<times> DB" where
  "caseRepository_Update env db c =
     Transaction db (exec env SaveCase
       (\<lambda>t. t\<lparr>cases := update_where (\<lambda>r. c_ID r = c_ID c) (\<lambda>r. c) (cases t)\<rparr>))"

definition caseRepository_UpdateStatus ::
    "Env \<Rightarrow> DB \<Rightarrow> uuid \<Rightarrow> CaseStatus \<Rightarrow> error option \<times> DB" where
  "caseRepository_UpdateStatus env db i status =
     Transaction db (exec env UpdateCaseStatus
       (\<lambda>t. t\<lparr>cases := update_where (\<lambda>r. c_ID r = i)
          (\<lambda>r. if status = CaseStatusAccepted
                then r\<lparr>c_Status := status, c_AcceptedAt := Some (now env)\<rparr>
                else if status = CaseStatusResolved
                then r\<lparr>c_Status := status, c_ResolvedAt := Some (now env)\<rparr>
                else r\<lparr>c_Status := status\<rparr>) (cases t)\<rparr>))"

definition caseRepository_Delete :: "Env \<Rightarrow> DB \<Rightarrow> uuid \<Rightarrow> error option \<times> DB" where
  "caseRepository_Delete env db i =
     Transaction db (exec env CancelCase
       (\<lambda>t. t\<lparr>cases := update_where (\<lambda>r. c_ID r = i)
          (\<lambda>r. r\<lparr>c_Status := CaseStatusCancelled\<rparr>) (cases t)\<rparr>))"

definition add_volunteer_count :: "uuid \<Rightarrow> int \<Rightarrow> DB \<Rightarrow> DB" where
  "add_volunteer_count i k t =
     t\<lparr>cases := update_where (\<lambda>r. c_ID r = i)
        (\<lambda>r. r\<lparr>c_VolunteerCount := c_VolunteerCount r + k\<rparr>) (cases t)\<rparr>"

text \<open>\<open>INSERT INTO case_volunteers\<close>; the schema's trigger, where installed, runs
  \<open>volunteer_count = volunteer_count + 1\<close> for the new row's case.\<close>

definition insert_case_volunteer :: "CaseVolunteer \<Rightarrow> DB \<Rightarrow> DB" where
  "insert_case_volunteer cv t =
     (let t' = t\<lparr>case_volunteers := case_volunteers t @ [cv]\<rparr>
      in if volunteer_count_trigger t then add_volunteer_count (cv_CaseID cv) 1 t' else t')"

definition caseRepository_AddVolunteer ::
    "Env \<Rightarrow> DB \<Rightarrow> CaseVolunteer \<Rightarrow> error option \<times> DB" where
  "caseRepository_AddVolunteer env db cv0 =
     (let cv = cv0\<lparr>cv_ID := new_id env 0 (cv_ID cv0),
                  cv_AcceptedAt := (if cv_AcceptedAt cv0 = 0 then now env else cv_AcceptedAt cv0)\<rparr>
      in Transaction db (\<lambda>tx.
         and_then (exec env InsertCaseVolunteer (insert_case_volunteer cv) tx) (\<lambda>tx.
         and_then (exec env IncrementVolunteerCount (add_volunteer_count (cv_CaseID cv) 1) tx) (\<lambda>tx.
         exec env AcceptPendingCase
           (\<lambda>t. t\<lparr>cases := update_where
                (\<lambda>r. c_ID r = cv_CaseID cv \<and> c_Status r = CaseStatusPending)
                (\<lambda>r. r\<lparr>c_Status := CaseStatusAccepted, c_AcceptedAt := Some (now env)\<rparr>)
                (cases t)\<rparr>) tx))))"

definition is_volunteer :: "uuid \<Rightarrow> uuid \<Rightarrow> CaseVolunteer \<Rightarrow> bool" where
  "is_volunteer caseID volunteerID r \<longleftrightarrow> cv_CaseID r = caseID \<and> cv_VolunteerID r = volunteerID"

definition caseRepository_GetVolunteer ::
    "Env \<Rightarrow> DB \<Rightarrow> uuid \<Rightarrow> uuid \<Rightarrow> error + CaseVolunteer option" where
  "caseRepository_GetVolunteer env db caseID volunteerID =
     (if fails env SelectCaseVolunteer then Inl (StorageError SelectCaseVolunteer)
      else Inr (find (is_volunteer caseID volunteerID) (case_volunteers db)))"

definition caseRepository_UpdateVolunteerStatus ::
    "Env \<Rightarrow> DB \<Rightarrow> uuid \<Rightarrow> uuid \<Rightarrow> VolunteerStatus \<Rightarrow> error option \<times> DB" where
  "caseRepository_UpdateVolunteerStatus env db caseID volunteerID status =
     Transaction db (exec env UpdateCaseVolunteerStatus
       (\<lambda>t. t\<lparr>case_volunteers := update_where (is_volunteer caseID volunteerID)
          (\<lambda>r. if status = VolunteerStatusOnSite
                then r\<lparr>cv_Status := status, cv_ArrivedAt := Some (now env)\<rparr>
                else if status = VolunteerStatusCompleted
                then r\<lparr>cv_Status := status, cv_CompletedAt := Some (now env)\<rparr>
                else r\<lparr>cv_Status := status\<rparr>) (case_volunteers t)\<rparr>))"

definition caseRepository_ReactivateVolunteer ::
    "Env \<Rightarrow> DB \<Rightarrow> uuid \<Rightarrow> uuid \<Rightarrow> real option \<Rightarrow> real option \<Rightarrow> real option
      \<Rightarrow> error option \<times> DB" where
  "caseRepository_ReactivateVolunteer env db caseID volunteerID latitude longitude distanceKm =
     Transaction db (\<lambda>tx.
       and_then (exec env ReactivateCaseVolunteer
         (\<lambda>t. t\<lparr>case_volunteers := update_where (is_volunteer caseID volunteerID)
            (\<lambda>r. r\<lparr>cv_Status := VolunteerStatusAccepted, cv_AcceptedAt := now env,
                   cv_AcceptedLatitude := latitude, cv_AcceptedLongitude := longitude,
                   cv_DistanceKm := distanceKm, cv_ArrivedAt := None,
                   cv_CompletedAt := None\<rparr>) (case_volunteers t)\<rparr>) tx) (\<lambda>tx.
       exec env IncrementVolunteerCount (add_volunteer_count caseID 1) tx))"

definition caseRepository_RemoveVolunteer ::
    "Env \<Rightarrow> DB \<Rightarrow> uuid \<Rightarrow> uuid \<Rightarrow> error option \<times> DB" where
  "caseRepository_RemoveVolunteer env db caseID volunteerID =
     Transaction db (\<lambda>tx.
       and_then (exec env WithdrawCaseVolunteer
         (\<lambda>t. t\<lparr>case_volunteers := update_where (is_volunteer caseID volunteerID)
            (\<lambda>r. r\<lparr>cv_Status := VolunteerStatusWithdrawn\<rparr>) (case_volunteers t)\<rparr>) tx) (\<lambda>tx.
       exec env DecrementVolunteerCount
         (\<lambda>t. t\<lparr>cases := update_where (\<lambda>r. c_ID r = caseID)
            (\<lambda>r. r\<lparr>c_VolunteerCount := max 0 (c_VolunteerCount r - 1)\<rparr>) (cases t)\<rparr>) tx))"

text \<open>The case's rows in \<open>accepted_at\<close> order (rows with equal stamps keep table order).\<close>

definition caseRepository_GetVolunteersByCaseID ::
    "Env \<Rightarrow> DB \<Rightarrow> uuid \<Rightarrow> error + CaseVolunteer list" where
  "caseRepository_GetVolunteersByCaseID env db caseID =
     (if fails env SelectCaseVolunteers then Inl (StorageError SelectCaseVolunteers)
      else Inr (sort_key cv_AcceptedAt (filter (\<lambda>r. cv_CaseID r = caseID) (case_volunteers db))))"

definition caseRepository_CreateUpdate :: "Env \<Rightarrow> DB \<Rightarrow> CaseUpdate \<Rightarrow> error option \<times> DB" where
  "caseRepository_CreateUpdate env db update =
     Transaction db (exec env InsertCaseUpdate
       (\<lambda>t. t\<lparr>case_updates := case_updates t
          @ [update\<lparr>upd_ID := new_id env 3 (upd_ID update),
                    upd_CreatedAt := (if upd_CreatedAt update = 0 then now env
                                      else upd_CreatedAt update)\<rparr>]\<rparr>))"

section \<open>userRepository\<close>

definition userRepository_GetByID :: "Env \<Rightarrow> DB \<Rightarrow> uuid \<Rightarrow> error + User option" where
  "userRepository_GetByID env db i =
     (if fails env SelectUser then Inl (StorageError SelectUser)
      else Inr (find (\<lambda>u. u_ID u = i) (users db)))"

definition userRepository_IncrementCasesReported ::
    "Env \<Rightarrow> DB \<Rightarrow> uuid \<Rightarrow> error option \<times> DB" where
  "userRepository_IncrementCasesReported env db userID =
     Transaction db (exec env IncrementUserCasesReported
       (\<lambda>t. t\<lparr>users := update_where (\<lambda>u. u_ID u = userID)
          (\<lambda>u. u\<lparr>u_TotalCasesReported := u_TotalCasesReported u + 1\<rparr>) (users t)\<rparr>))"

definition userRepository_IncrementCasesResolved ::
    "Env \<Rightarrow> DB \<Rightarrow> uuid \<Rightarrow> error option \<times> DB" where
  "userRepository_IncrementCasesResolved env db userID =
     Transaction db (exec env IncrementUserCasesResolved
       (\<lambda>t. t\<lparr>users := update_where (\<lambda>u. u_ID u = userID)
          (\<lambda>u. u\<lparr>u_TotalCasesResolved := u_TotalCasesResolved u + 1\<rparr>) (users t)\<rparr>))"

subsection \<open>FindAvailableVolunteers\<close>











section \<open>Requests (package request)\<close>

record CreateCaseRequest =
  req_CaseType :: CaseType
  req_Urgency :: UrgencyLevel
  req_Latitude :: real
  req_Longitude :: real
  req_Address :: "string option"
  req_LocationNote :: "string option"
  req_Title :: string
  req_Description :: "string option"
  req_ReporterName :: "string option"
  req_ReporterPhone :: string
  req_IsAnonymous :: bool
  req_AnimalType :: "string option"
  req_AnimalTypeOther :: "string option"
  req_AnimalCondition :: "string option"
  req_ConditionDescription :: "string option"
  req_EstimatedCount :: "int option"
  req_PeopleCount :: "int option"
  req_HasChildren :: "bool option"
  req_HasElderly :: "bool option"
  req_HasDisabled :: "bool option"
  req_WaterLevelCm :: "int option"
  req_FloorLevel :: "int option"
  req_HasPower :: "bool option"
  req_HasFoodWater :: "bool option"
  req_MedicalNeeds :: "string option"
  req_AccidentType :: "string option"
  req_VictimCount :: "int option"
  req_HasUnconscious :: "bool option"
  req_HasBleeding :: "bool option"
  req_HasFracture :: "bool option"
  req_IsTrapped :: "bool option"
  req_HazardPresent :: "bool option"
  req_HazardDescription :: "string option"

record UpdateCaseRequest =
  ureq_Title :: "string option"
  ureq_Description :: "string option"
  ureq_Urgency :: "UrgencyLevel option"
  ureq_Status :: "CaseStatus option"
  ureq_Address :: "string option"
  ureq_LocationNote :: "string option"

record AcceptCaseRequest =
  areq_Latitude :: "real option"
  areq_Longitude :: "real option"

record UpdateVolunteerStatusRequest =
  vreq_Status :: VolunteerStatus
  vreq_Note :: "string option"

section \<open>caseService\<close>

text \<open>
  A service operation returns its error (or result), the database it leaves behind and
  the goroutines it has started. A goroutine runs later, on whatever the database then
  holds; the two that write to the database are functions of their own below. Logging
  and the push transport are not modelled.
\<close>

datatype Task =
    GoIncrementCasesReported uuid
  | GoNotifyNearbyVolunteers Case
  | GoNotifyReporterOfAcceptance Case User
  | GoCheckCaseCompletion uuid uuid

definition getIntOrDefault :: "int option \<Rightarrow> int \<Rightarrow> int" where
  "getIntOrDefault ptr d = (case ptr of None \<Rightarrow> d | Some v \<Rightarrow> v)"

definition getBoolOrDefault :: "bool option \<Rightarrow> bool \<Rightarrow> bool" where
  "getBoolOrDefault ptr d = (case ptr of None \<Rightarrow> d | Some v \<Rightarrow> v)"

text \<open>"Build case entity" and "Add type-specific details": fields the source does not
  set hold Go's zero values.\<close>

definition build_case :: "CreateCaseRequest \<Rightarrow> uuid option \<Rightarrow> Case" where
  "build_case req userID =
     \<lparr>c_ID = uuid_Nil, c_CaseType = req_CaseType req, c_Status = CaseStatusPending,
      c_Urgency = req_Urgency req, c_Latitude = req_Latitude req,
      c_Longitude = req_Longitude req, c_Address = req_Address req,
      c_LocationNote = req_LocationNote req, c_Title = req_Title req,
      c_Description = req_Description req, c_ReporterID = userID,
      c_ReporterName = req_ReporterName req, c_ReporterPhone = req_ReporterPhone req,
      c_IsAnonymous = req_IsAnonymous req, c_VolunteerCount = 0, c_MaxVolunteers = 0,
      c_CreatedAt = 0, c_AcceptedAt = None, c_ResolvedAt = None,
      c_AnimalDetails =
        (if req_CaseType req = CaseTypeAnimal then
           (case (req_AnimalType req, req_AnimalCondition req) of
              (Some animalType, Some animalCondition) \<Rightarrow>
                Some \<lparr>ad_ID = uuid_Nil, ad_CaseID = uuid_Nil, ad_AnimalType = animalType,
                      ad_AnimalTypeOther = req_AnimalTypeOther req,
                      ad_Condition = animalCondition,
                      ad_ConditionDescription = req_ConditionDescription req,
                      ad_EstimatedCount = getIntOrDefault (req_EstimatedCount req) 1\<rparr>
            | _ \<Rightarrow> None)
         else None),
      c_FloodDetails =
        (if req_CaseType req = CaseTypeFlood then
           Some \<lparr>fd_ID = uuid_Nil, fd_CaseID = uuid_Nil, fd_PeopleCount = req_PeopleCount req,
                 fd_HasChildren = getBoolOrDefault (req_HasChildren req) False,
                 fd_HasElderly = getBoolOrDefault (req_HasElderly req) False,
                 fd_HasDisabled = getBoolOrDefault (req_HasDisabled req) False,
                 fd_WaterLevelCm = req_WaterLevelCm req, fd_FloorLevel = req_FloorLevel req,
                 fd_HasPower = req_HasPower req, fd_HasFoodWater = req_HasFoodWater req,
                 fd_MedicalNeeds = req_MedicalNeeds req\<rparr>
         else None),
      c_AccidentDetails =
        (if req_CaseType req = CaseTypeAccident then
           (case req_AccidentType req of
              Some accidentType \<Rightarrow>
                Some \<lparr>acd_ID = uuid_Nil, acd_CaseID = uuid_Nil, acd_AccidentType = accidentType,
                      acd_VictimCount = getIntOrDefault (req_VictimCount req) 1,
                      acd_HasUnconscious = getBoolOrDefault (req_HasUnconscious req) False,
                      acd_HasBleeding = getBoolOrDefault (req_HasBleeding req) False,
                      acd_HasFracture = getBoolOrDefault (req_HasFracture req) False,
                      acd_IsTrapped = getBoolOrDefault (req_IsTrapped req) False,
                      acd_HazardPresent = getBoolOrDefault (req_HazardPresent req) False,
                      acd_HazardDescription = req_HazardDescription req\<rparr>
            | None \<Rightarrow> None)
         else None)\<rparr>"

definition caseService_Create ::
    "Env \<Rightarrow> DB \<Rightarrow> CreateCaseRequest \<Rightarrow> uuid option \<Rightarrow> (error + Case) \<times> DB \<times> Task list" where
  "caseService_Create env db req userID =
     (case caseRepository_Create env db (build_case req userID) of
        ((Some err, _), _) \<Rightarrow> (Inl err, db, [])
      | ((None, db'), c) \<Rightarrow>
          (Inr c, db',
           (case userID of Some u \<Rightarrow> [GoIncrementCasesReported u] | None \<Rightarrow> [])
           @ [GoNotifyNearbyVolunteers c]))"

text \<open>A timeline entry as the service builds it; \<open>CreateUpdate\<close> failing is logged
  and does not stop the operation.\<close>

definition new_update ::
    "uuid \<Rightarrow> UpdateType \<Rightarrow> uuid \<Rightarrow> string option \<Rightarrow> CaseStatus option \<Rightarrow> CaseStatus option
      \<Rightarrow> CaseUpdate" where
  "new_update caseID updateType userID content oldStatus newStatus =
     \<lparr>upd_ID = uuid_Nil, upd_CaseID = caseID, upd_UpdateType = updateType,
      upd_UserID = Some userID, upd_Content = content, upd_OldStatus = oldStatus,
      upd_NewStatus = newStatus, upd_MediaURLs = [], upd_CreatedAt = 0\<rparr>"

definition log_update :: "Env \<Rightarrow> DB \<Rightarrow> CaseUpdate \<Rightarrow> DB" where
  "log_update env db update = snd (caseRepository_CreateUpdate env db update)"

definition caseService_Update ::
    "Env \<Rightarrow> DB \<Rightarrow> uuid \<Rightarrow> uuid \<Rightarrow> UpdateCaseRequest \<Rightarrow> (error + Case) \<times> DB" where
  "caseService_Update env db i userID req =
     (case caseRepository_GetByID env db i of
        Inl err \<Rightarrow> (Inl err, db)
      | Inr None \<Rightarrow> (Inl ErrCaseNotFound, db)
      | Inr (Some c0) \<Rightarrow>
          if c_ReporterID c0 = None \<or> c_ReporterID c0 \<noteq> Some userID then (Inl ErrForbidden, db)
          else
            (let c1 = (case ureq_Title req of Some t \<Rightarrow> c0\<lparr>c_Title := t\<rparr> | None \<Rightarrow> c0);
                 c2 = (case ureq_Description req of
                         Some d \<Rightarrow> c1\<lparr>c_Description := Some d\<rparr> | None \<Rightarrow> c1);
                 c3 = (case ureq_Urgency req of Some u \<Rightarrow> c2\<lparr>c_Urgency := u\<rparr> | None \<Rightarrow> c2);
                 c4 = (case ureq_Status req of Some st \<Rightarrow> c3\<lparr>c_Status := st\<rparr> | None \<Rightarrow> c3);
                 db1 = (case ureq_Status req of
                          Some st \<Rightarrow>
                            log_update env db
                              (new_update (c_ID c3) UpdateTypeStatusChange userID None
                                 (Some (c_Status c3)) (Some st))
                        | None \<Rightarrow> db);
                 c5 = (case ureq_Address req of Some a \<Rightarrow> c4\<lparr>c_Address := Some a\<rparr> | None \<Rightarrow> c4);
                 c = (case ureq_LocationNote req of
                        Some n \<Rightarrow> c5\<lparr>c_LocationNote := Some n\<rparr> | None \<Rightarrow> c5)
             in case caseRepository_Update env db1 c of
                  (Some err, _) \<Rightarrow> (Inl err, db1)
                | (None, db2) \<Rightarrow> (Inr c, db2)))"

definition caseService_Delete :: "Env \<Rightarrow> DB \<Rightarrow> uuid \<Rightarrow> uuid \<Rightarrow> error option \<times> DB" where
  "caseService_Delete env db i userID =
     (case caseRepository_GetByID env db i of
        Inl err \<Rightarrow> (Some err, db)
      | Inr None \<Rightarrow> (Some ErrCaseNotFound, db)
      | Inr (Some c) \<Rightarrow>
          if c_ReporterID c = None \<or> c_ReporterID c \<noteq> Some userID then (Some ErrForbidden, db)
          else
            (case caseRepository_Delete env db i of
               (Some err, _) \<Rightarrow> (Some err, db)
             | (None, db') \<Rightarrow> (None, db')))"

definition joined_text :: string where
  "joined_text = '' '' @ [CHR 0xC4, CHR 0x91, CHR 0xC3, CHR 0xA3] @ '' nh''
     @ [CHR 0xE1, CHR 0xBA, CHR 0xAD] @ ''n case n'' @ [CHR 0xC3, CHR 0xA0] @ ''y''"

text \<open>The tail of \<open>Accept\<close> once the volunteer is on the case: timeline entry and
  notification of the reporter.\<close>

definition accepted :: "Env \<Rightarrow> DB \<Rightarrow> Case \<Rightarrow> User \<Rightarrow> uuid \<Rightarrow> uuid \<Rightarrow> error option \<times> DB \<times> Task list" where
  "accepted env db c volunteer caseID volunteerID =
     (None,
      log_update env db
        (new_update caseID UpdateTypeVolunteerJoined volunteerID
           (Some (u_DisplayName volunteer @ joined_text)) None None),
      [GoNotifyReporterOfAcceptance c volunteer])"

definition caseService_Accept ::
    "Env \<Rightarrow> DB \<Rightarrow> uuid \<Rightarrow> uuid \<Rightarrow> AcceptCaseRequest \<Rightarrow> error option \<times> DB \<times> Task list" where
  "caseService_Accept env db caseID volunteerID req =
     (case caseRepository_GetByID env db caseID of
        Inl err \<Rightarrow> (Some err, db, [])
      | Inr None \<Rightarrow> (Some ErrCaseNotFound, db, [])
      | Inr (Some c) \<Rightarrow>
          if \<not> IsActive (c_Status c) then
            (Some (NewAppError ''CASE_CLOSED'' ''This case is no longer accepting volunteers'' 400),
             db, [])
          else if c_VolunteerCount c \<ge> c_MaxVolunteers c then
            (Some (NewAppError ''MAX_VOLUNTEERS'' ''Maximum volunteers reached for this case'' 400),
             db, [])
          else
            (case userRepository_GetByID env db volunteerID of
               Inl err \<Rightarrow> (Some err, db, [])
             | Inr None \<Rightarrow> (Some ErrUserNotFound, db, [])
             | Inr (Some volunteer) \<Rightarrow>
                 (let (latitude, longitude, distanceKm) =
                        (case (areq_Latitude req, areq_Longitude req) of
                           (Some la, Some lo) \<Rightarrow>
                             (Some la, Some lo,
                              Some (DistanceKm (GetLocation c) (NewGeoPoint la lo)))
                         | _ \<Rightarrow> (None, None, None))
                  in case caseRepository_GetVolunteer env db caseID volunteerID of
                       Inl err \<Rightarrow> (Some err, db, [])
                     | Inr (Some existing) \<Rightarrow>
                         if cv_Status existing = VolunteerStatusWithdrawn then
                           (case caseRepository_ReactivateVolunteer env db caseID volunteerID
                                   latitude longitude distanceKm of
                              (Some err, _) \<Rightarrow> (Some err, db, [])
                            | (None, db') \<Rightarrow> accepted env db' c volunteer caseID volunteerID)
                         else
                           (Some (NewAppError ''ALREADY_ACCEPTED''
                                    ''You have already accepted this case'' 400), db, [])
                     | Inr None \<Rightarrow>
                         (case caseRepository_AddVolunteer env db
                                 \<lparr>cv_ID = uuid_Nil, cv_CaseID = caseID,
                                  cv_VolunteerID = volunteerID,
                                  cv_Status = VolunteerStatusAccepted,
                                  cv_AcceptedLatitude = latitude,
                                  cv_AcceptedLongitude = longitude,
                                  cv_DistanceKm = distanceKm, cv_AcceptedAt = 0,
                                  cv_ArrivedAt = None, cv_CompletedAt = None,
                                  cv_Note = None\<rparr> of
                            (Some err, _) \<Rightarrow> (Some err, db, [])
                          | (None, db') \<Rightarrow> accepted env db' c volunteer caseID volunteerID))))"

text \<open>\<open>volunteer, _ := s.userRepo.GetByID(...)\<close>: the name for a timeline entry, with a
  fallback when the user cannot be read.\<close>

definition volunteer_name :: "Env \<Rightarrow> DB \<Rightarrow> uuid \<Rightarrow> string \<Rightarrow> string" where
  "volunteer_name env db volunteerID fallback =
     (case userRepository_GetByID env db volunteerID of
        Inr (Some volunteer) \<Rightarrow> u_DisplayName volunteer
      | _ \<Rightarrow> fallback)"

definition caseService_Withdraw :: "Env \<Rightarrow> DB \<Rightarrow> uuid \<Rightarrow> uuid \<Rightarrow> error option \<times> DB" where
  "caseService_Withdraw env db caseID volunteerID =
     (case caseRepository_GetVolunteer env db caseID volunteerID of
        Inl err \<Rightarrow> (Some err, db)
      | Inr None \<Rightarrow>
          (Some (NewAppError ''NOT_ACCEPTED'' ''You have not accepted this case'' 400), db)
      | Inr (Some cv) \<Rightarrow>
          (let volunteerName = volunteer_name env db volunteerID ''A volunteer''
           in case caseRepository_RemoveVolunteer env db caseID volunteerID of
                (Some err, _) \<Rightarrow> (Some err, db)
              | (None, db') \<Rightarrow>
                  (None,
                   log_update env db'
                     (new_update caseID UpdateTypeVolunteerWithdrawn volunteerID
                        (Some (volunteerName @ '' has left this case'')) None None))))"

definition getStatusText :: "VolunteerStatus \<Rightarrow> string" where
  "getStatusText status =
     (case status of
        VolunteerStatusEnRoute \<Rightarrow>
          [CHR 0xC4, CHR 0x91] @ ''ang tr'' @ [CHR 0xC3, CHR 0xAA] @ ''n ''
          @ [CHR 0xC4, CHR 0x91, CHR 0xC6, CHR 0xB0, CHR 0xE1, CHR 0xBB, CHR 0x9D] @ ''ng ''
          @ [CHR 0xC4, CHR 0x91, CHR 0xE1, CHR 0xBA, CHR 0xBF] @ ''n''
      | VolunteerStatusOnSite \<Rightarrow>
          [CHR 0xC4, CHR 0x91, CHR 0xC3, CHR 0xA3] @ '' ''
          @ [CHR 0xC4, CHR 0x91, CHR 0xE1, CHR 0xBA, CHR 0xBF] @ ''n hi''
          @ [CHR 0xE1, CHR 0xBB, CHR 0x87] @ ''n tr''
          @ [CHR 0xC6, CHR 0xB0, CHR 0xE1, CHR 0xBB, CHR 0x9D] @ ''ng''
      | VolunteerStatusHandling \<Rightarrow>
          [CHR 0xC4, CHR 0x91] @ ''ang x'' @ [CHR 0xE1, CHR 0xBB, CHR 0xAD] @ '' l''
          @ [CHR 0xC3, CHR 0xBD]
      | VolunteerStatusCompleted \<Rightarrow>
          [CHR 0xC4, CHR 0x91, CHR 0xC3, CHR 0xA3] @ '' ho'' @ [CHR 0xC3, CHR 0xA0] @ ''n th''
          @ [CHR 0xC3, CHR 0xA0] @ ''nh''
      | VolunteerStatusWithdrawn \<Rightarrow>
          [CHR 0xC4, CHR 0x91, CHR 0xC3, CHR 0xA3] @ '' r'' @ [CHR 0xC3, CHR 0xBA] @ ''t kh''
          @ [CHR 0xE1, CHR 0xBB, CHR 0x8F] @ ''i case''
      | _ \<Rightarrow>
          ''c'' @ [CHR 0xE1, CHR 0xBA, CHR 0xAD] @ ''p nh'' @ [CHR 0xE1, CHR 0xBA, CHR 0xAD]
          @ ''t tr'' @ [CHR 0xE1, CHR 0xBA, CHR 0xA1] @ ''ng th'' @ [CHR 0xC3, CHR 0xA1] @ ''i'')"

definition default_volunteer_name :: string where
  "default_volunteer_name = ''T'' @ [CHR 0xC3, CHR 0xAC] @ ''nh nguy''
     @ [CHR 0xE1, CHR 0xBB, CHR 0x87] @ ''n vi'' @ [CHR 0xC3, CHR 0xAA] @ ''n''"

definition caseService_UpdateVolunteerStatus ::
    "Env \<Rightarrow> DB \<Rightarrow> uuid \<Rightarrow> uuid \<Rightarrow> UpdateVolunteerStatusRequest
      \<Rightarrow> error option \<times> DB \<times> Task list" where
  "caseService_UpdateVolunteerStatus env db caseID volunteerID req =
     (case caseRepository_GetVolunteer env db caseID volunteerID of
        Inl err \<Rightarrow> (Some err, db, [])
      | Inr None \<Rightarrow>
          (Some (NewAppError ''NOT_ACCEPTED'' ''You have not accepted this case'' 400), db, [])
      | Inr (Some cv) \<Rightarrow>
          (case caseRepository_UpdateVolunteerStatus env db caseID volunteerID (vreq_Status req) of
             (Some err, _) \<Rightarrow> (Some err, db, [])
           | (None, db') \<Rightarrow>
               (let volunteerName = volunteer_name env db' volunteerID default_volunteer_name;
                    content0 = volunteerName @ '' '' @ getStatusText (vreq_Status req);
                    content = (case vreq_Note req of
                                 Some note \<Rightarrow>
                                   if note \<noteq> [] then content0 @ '': '' @ note else content0
                               | None \<Rightarrow> content0)
                in (None,
                    log_update env db'
                      (new_update caseID UpdateTypeVolunteerUpdate volunteerID (Some content)
                         None None),
                    if vreq_Status req = VolunteerStatusCompleted
                    then [GoCheckCaseCompletion caseID volunteerID] else []))))"

text \<open>The loop that computes \<open>allDone\<close>, with its \<open>break\<close>.\<close>

fun allDone :: "CaseVolunteer list \<Rightarrow> bool" where
  "allDone [] = True"
| "allDone (v # vs) =
     (if cv_Status v \<noteq> VolunteerStatusCompleted \<and> cv_Status v \<noteq> VolunteerStatusWithdrawn
      then False else allDone vs)"

text \<open>The loop that credits the completed volunteers; a failed increment is logged and
  the loop goes on.\<close>

fun credit_completed :: "Env \<Rightarrow> CaseVolunteer list \<Rightarrow> DB \<Rightarrow> DB" where
  "credit_completed env [] db = db"
| "credit_completed env (v # vs) db =
     credit_completed env vs
       (if cv_Status v = VolunteerStatusCompleted
        then snd (userRepository_IncrementCasesResolved env db (cv_VolunteerID v))
        else db)"

definition checkCaseCompletion :: "Env \<Rightarrow> DB \<Rightarrow> uuid \<Rightarrow> uuid \<Rightarrow> DB" where
  "checkCaseCompletion env db caseID volunteerID =
     (case caseRepository_GetVolunteersByCaseID env db caseID of
        Inl err \<Rightarrow> db
      | Inr volunteers \<Rightarrow>
          if allDone volunteers \<and> length volunteers > 0 then
            (case caseRepository_UpdateStatus env db caseID CaseStatusResolved of
               (Some err, _) \<Rightarrow> db
             | (None, db') \<Rightarrow> credit_completed env volunteers db')
          else db)"

text \<open>What a started goroutine does to the database.\<close>

fun run_task :: "Env \<Rightarrow> Task \<Rightarrow> DB \<Rightarrow> DB" where
  "run_task env (GoIncrementCasesReported userID) db =
     snd (userRepository_IncrementCasesReported env db userID)"
| "run_task env (GoCheckCaseCompletion caseID volunteerID) db =
     checkCaseCompletion env db caseID volunteerID"
| "run_task env (GoNotifyNearbyVolunteers c) db = db"
| "run_task env (GoNotifyReporterOfAcceptance c volunteer) db = db"

section \<open>Example data\<close>

text \<open>A healthy environment for the call made at time \<open>n\<close>: no statement fails and
  the UUIDs drawn are \<open>10 * n\<close>, \<open>10 * n + 1\<close>, ...\<close>

definition env_at :: "nat \<Rightarrow> Env" where
  "env_at n = \<lparr>fails = (\<lambda>st. False), now = n, uuid_New = (\<lambda>k. 10 * n + k)\<rparr>"

definition example_user :: "uuid \<Rightarrow> string \<Rightarrow> User" where
  "example_user i name =
     \<lparr>u_ID = i, u_DisplayName = name, u_IsAvailable = True,
      u_Latitude = Some (1077 / 100), u_Longitude = Some (1067 / 10),
      u_TotalCasesReported = 0, u_TotalCasesResolved = 0, u_IsActive = True\<rparr>"

definition db_start :: DB where
  "db_start =
     \<lparr>cases = [], case_animal_details = [], case_flood_details = [],
      case_accident_details = [], case_volunteers = [], case_updates = [],
      users = [example_user 7 ''An'', example_user 8 ''Binh'', example_user 9 ''Chi''],
      user_preferences = [], volunteer_count_trigger = False\<rparr>"

text \<open>A flood report at (10.77, 106.70), urgency critical.\<close>

definition req_flood :: CreateCaseRequest where
  "req_flood =
     \<lparr>req_CaseType = CaseTypeFlood, req_Urgency = UrgencyCritical,
      req_Latitude = 1077 / 100, req_Longitude = 1067 / 10, req_Address = None,
      req_LocationNote = None, req_Title = ''Flooded street'', req_Description = None,
      req_ReporterName = None, req_ReporterPhone = ''0900000000'', req_IsAnonymous = False,
      req_AnimalType = None, req_AnimalTypeOther = None, req_AnimalCondition = None,
      req_ConditionDescription = None, req_EstimatedCount = None, req_PeopleCount = None,
      req_HasChildren = None, req_HasElderly = None, req_HasDisabled = None,
      req_WaterLevelCm = None, req_FloorLevel = None, req_HasPower = None,
      req_HasFoodWater = None, req_MedicalNeeds = None, req_AccidentType = None,
      req_VictimCount = None, req_HasUnconscious = None, req_HasBleeding = None,
      req_HasFracture = None, req_IsTrapped = None, req_HazardPresent = None,
      req_HazardDescription = None\<rparr>"

text \<open>The case row with identifier 100 that this report leaves in the table, for a
  given reporter.\<close>

definition example_case :: "uuid option \<Rightarrow> Case" where
  "example_case reporter = case_row (env_at 10) ((build_case req_flood reporter)\<lparr>c_ID := 100\<rparr>)"

definition some_patch :: UpdateCaseRequest where
  "some_patch =
     \<lparr>ureq_Title = Some ''Renamed'', ureq_Description = None, ureq_Urgency = None,
      ureq_Status = Some CaseStatusResolved, ureq_Address = None, ureq_LocationNote = None\<rparr>"

definition no_location :: AcceptCaseRequest where
  "no_location = \<lparr>areq_Latitude = None, areq_Longitude = None\<rparr>"

text \<open>A run of the coordinator from \<open>db_start\<close>: user 9 reports the flood (case 100),
  volunteers 7 and 8 accept, volunteer 7 withdraws, and then withdraws once more.\<close>

definition db1 :: DB where
  "db1 = fst (snd (caseService_Create (env_at 10) db_start req_flood (Some 9)))"

definition db2 :: DB where
  "db2 = fst (snd (caseService_Accept (env_at 11) db1 100 7 no_location))"

definition db3 :: DB where
  "db3 = fst (snd (caseService_Accept (env_at 12) db2 100 8 no_location))"

definition db4 :: DB where
  "db4 = snd (caseService_Withdraw (env_at 13) db3 100 7)"

definition db5 :: DB where
  "db5 = snd (caseService_Withdraw (env_at 14) db4 100 7)"

text \<open>A second run from \<open>db3\<close>: volunteer 7 completes, then volunteer 8 completes.\<close>

definition completed_req :: UpdateVolunteerStatusRequest where
  "completed_req = \<lparr>vreq_Status = VolunteerStatusCompleted, vreq_Note = None\<rparr>"

definition dbc1 :: DB where
  "dbc1 = fst (snd (caseService_UpdateVolunteerStatus (env_at 13) db3 100 7 completed_req))"

definition dbc2 :: DB where
  "dbc2 = fst (snd (caseService_UpdateVolunteerStatus (env_at 14) dbc1 100 8 completed_req))"

definition withdrawn_req :: UpdateVolunteerStatusRequest where
  "withdrawn_req = \<lparr>vreq_Status = VolunteerStatusWithdrawn, vreq_Note = None\<rparr>"

text \<open>The first two steps of the run on a database that has the schema's trigger.\<close>

definition dbt2 :: DB where
  "dbt2 = fst (snd (caseService_Accept (env_at 11)
            (fst (snd (caseService_Create (env_at 10)
               (db_start\<lparr>volunteer_count_trigger := True\<rparr>) req_flood (Some 9))))
            100 7 no_location))"

definition example_record :: "uuid \<Rightarrow> uuid \<Rightarrow> timestamp \<Rightarrow> VolunteerStatus \<Rightarrow> CaseVolunteer" where
  "example_record i volunteerID t status =
     \<lparr>cv_ID = i, cv_CaseID = 100, cv_VolunteerID = volunteerID, cv_Status = status,
      cv_AcceptedLatitude = None, cv_AcceptedLongitude = None, cv_DistanceKm = None,
      cv_AcceptedAt = t, cv_ArrivedAt = None, cv_CompletedAt = None, cv_Note = None\<rparr>"

definition accepted_case :: "int \<Rightarrow> Case" where
  "accepted_case n =
     (example_case (Some 9))\<lparr>c_Status := CaseStatusAccepted, c_VolunteerCount := n,
                              c_AcceptedAt := Some 11\<rparr>"





section \<open>The properties in the words of the specification\<close>

text \<open>The volunteer-on-case records of a case that are not withdrawn, and the denormalised
  counter agreeing with them.\<close>

definition active_records :: "DB \<Rightarrow> uuid \<Rightarrow> nat" where
  "active_records db caseID =
     length (filter (\<lambda>r. cv_CaseID r = caseID \<and> cv_Status r \<noteq> VolunteerStatusWithdrawn)
               (case_volunteers db))"

definition count_matches_records :: "DB \<Rightarrow> Case \<Rightarrow> bool" where
  "count_matches_records db c \<longleftrightarrow>
     0 \<le> c_VolunteerCount c \<and> c_VolunteerCount c = int (active_records db (c_ID c))"

definition volunteer_count_invariant :: "DB \<Rightarrow> bool" where
  "volunteer_count_invariant db = list_all (count_matches_records db) (cases db)"

text \<open>All volunteer records of a case; a record that is completed or withdrawn; the
  number of completed records that a user holds among some records.\<close>

definition case_records :: "DB \<Rightarrow> uuid \<Rightarrow> CaseVolunteer list" where
  "case_records db caseID = filter (\<lambda>r. cv_CaseID r = caseID) (case_volunteers db)"

definition record_done :: "CaseVolunteer \<Rightarrow> bool" where
  "record_done r \<longleftrightarrow>
     cv_Status r = VolunteerStatusCompleted \<or> cv_Status r = VolunteerStatusWithdrawn"

definition completed_by :: "uuid \<Rightarrow> CaseVolunteer list \<Rightarrow> nat" where
  "completed_by userID rows =
     length (filter (\<lambda>r. cv_Status r = VolunteerStatusCompleted \<and> cv_VolunteerID r = userID)
               rows)"











section \<open>Tables\<close>

lemma find_update_where:
  assumes "\<And>r. P (f r) = P r"
  shows "find P (update_where Q f rows) = map_option (\<lambda>r. if Q r then f r else r) (find P rows)"
  using assms by (induction rows) (auto simp: update_where_def)

lemma length_update_where: "length (update_where Q f rows) = length rows"
  by (simp add: update_where_def)

section \<open>Reporter-only mutation\<close>

text \<open>
  Claim C10. For a case whose reporter is absent (an anonymous report), \<open>Update\<close> and
  \<open>Delete\<close> fail for every caller and every patch and leave the database as it was;
  the failure is \<open>Forbidden\<close> whenever the case row can be read.
\<close>

theorem anonymous_case_is_read_only:
  assumes "find (\<lambda>r. c_ID r = i) (cases db) = Some c" and "c_ReporterID c = None"
  shows "(\<exists>e. caseService_Update env db i userID req = (Inl e, db))
       \<and> (\<exists>e. caseService_Delete env db i userID = (Some e, db))
       \<and> (\<not> fails env SelectCase \<longrightarrow>
            caseService_Update env db i userID req = (Inl ErrForbidden, db)
          \<and> caseService_Delete env db i userID = (Some ErrForbidden, db))"
  using assms
  by (simp add: caseService_Update_def caseService_Delete_def caseRepository_GetByID_def)

theorem anonymous_case_is_read_only_witness:
  "find (\<lambda>r. c_ID r = 100) (cases (db_start\<lparr>cases := [example_case None]\<rparr>))
     = Some (example_case None)
   \<and> c_ReporterID (example_case None) = None
   \<and> \<not> fails (env_at 20) SelectCase
   \<and> caseService_Update (env_at 20) (db_start\<lparr>cases := [example_case None]\<rparr>) 100 3 some_patch
       = (Inl ErrForbidden, db_start\<lparr>cases := [example_case None]\<rparr>)
   \<and> caseService_Delete (env_at 20) (db_start\<lparr>cases := [example_case None]\<rparr>) 100 3
       = (Some ErrForbidden, db_start\<lparr>cases := [example_case None]\<rparr>)"
proof -
  have a: "find (\<lambda>r. c_ID r = 100) (cases (db_start\<lparr>cases := [example_case None]\<rparr>))
             = Some (example_case None)"
    by (simp add: example_case_def case_row_def)
  have b: "c_ReporterID (example_case None) = None"
    by (simp add: example_case_def case_row_def build_case_def)
  have c: "\<not> fails (env_at 20) SelectCase"
    by (simp add: env_at_def)
  from anonymous_case_is_read_only [OF a b, of "env_at 20" 3 some_patch] a b c
  show ?thesis by simp
qed


lemma map_key_update_where:
  assumes "\<And>r. k (f r) = k r"
  shows "map k (update_where Q f rows) = map k rows"
  using assms by (simp add: update_where_def)

section \<open>The example run\<close>

lemmas repo_defs = caseRepository_GetByID_def userRepository_GetByID_def
  caseRepository_GetVolunteer_def caseRepository_AddVolunteer_def
  caseRepository_ReactivateVolunteer_def caseRepository_RemoveVolunteer_def
  caseRepository_CreateUpdate_def caseRepository_UpdateVolunteerStatus_def
  Transaction_def exec_def and_then_def
  insert_case_volunteer_def add_volunteer_count_def log_update_def accepted_def

lemmas example_defs = env_at_def db_start_def example_user_def req_flood_def example_case_def
  accepted_case_def no_location_def example_record_def completed_req_def new_id_def uuid_Nil_def
  case_row_def build_case_def CaseTypeAnimal_def CaseTypeFlood_def CaseTypeAccident_def

lemma db1_tables:
  "cases db1 = [example_case (Some 9)]" "case_volunteers db1 = []"
  "users db1 = users db_start" "\<not> volunteer_count_trigger db1"
  "map fd_CaseID (case_flood_details db1) = [100]"
  "case_animal_details db1 = []" "case_accident_details db1 = []"
  by (simp_all add: db1_def caseService_Create_def caseRepository_Create_def create_details_def
        created_case_def repo_defs example_defs Let_def)

lemma db2_tables:
  "cases db2 = [accepted_case 1]"
  "case_volunteers db2 = [example_record 110 7 11 VolunteerStatusAccepted]"
  "users db2 = users db_start" "\<not> volunteer_count_trigger db2"
  by (simp_all add: db2_def db1_tables caseService_Accept_def repo_defs update_where_def
        IsActive_def example_defs Let_def is_volunteer_def)

lemma db3_tables:
  "cases db3 = [accepted_case 2]"
  "case_volunteers db3 = [example_record 110 7 11 VolunteerStatusAccepted,
                          example_record 120 8 12 VolunteerStatusAccepted]"
  "users db3 = users db_start" "\<not> volunteer_count_trigger db3"
  by (simp_all add: db3_def db2_tables caseService_Accept_def repo_defs update_where_def
        IsActive_def example_defs Let_def is_volunteer_def)

lemma db4_tables:
  "cases db4 = [accepted_case 1]"
  "case_volunteers db4 = [example_record 110 7 11 VolunteerStatusWithdrawn,
                          example_record 120 8 12 VolunteerStatusAccepted]"
  "users db4 = users db_start" "\<not> volunteer_count_trigger db4"
  by (simp_all add: db4_def db3_tables caseService_Withdraw_def repo_defs update_where_def
        volunteer_name_def example_defs Let_def is_volunteer_def)

lemma db5_tables:
  "cases db5 = [accepted_case 0]"
  "case_volunteers db5 = [example_record 110 7 11 VolunteerStatusWithdrawn,
                          example_record 120 8 12 VolunteerStatusAccepted]"
  by (simp_all add: db5_def db4_tables caseService_Withdraw_def repo_defs update_where_def
        volunteer_name_def example_defs Let_def is_volunteer_def)

lemma run_has_no_errors:
  "map_sum id c_ID (fst (caseService_Create (env_at 10) db_start req_flood (Some 9))) = Inr 100"
  "fst (caseService_Accept (env_at 11) db1 100 7 no_location) = None"
  "fst (caseService_Accept (env_at 12) db2 100 8 no_location) = None"
  "fst (caseService_Withdraw (env_at 13) db3 100 7) = None"
  "fst (caseService_Withdraw (env_at 14) db4 100 7) = None"
      apply (simp add: caseService_Create_def caseRepository_Create_def create_details_def
        created_case_def repo_defs example_defs Let_def)
     apply (simp add: db1_tables caseService_Accept_def repo_defs update_where_def
        IsActive_def example_defs Let_def is_volunteer_def)
    apply (simp add: db2_tables caseService_Accept_def repo_defs update_where_def
        IsActive_def example_defs Let_def is_volunteer_def)
   apply (simp add: db3_tables caseService_Withdraw_def repo_defs update_where_def
        volunteer_name_def example_defs Let_def is_volunteer_def)
  apply (simp add: db4_tables caseService_Withdraw_def repo_defs update_where_def
        volunteer_name_def example_defs Let_def is_volunteer_def)
  done

section \<open>The volunteer counter\<close>

text \<open>
  Claim C1 says that in every state the coordinator can reach, each case's
  \<open>volunteerCount\<close> is non-negative and equals the number of its records that are not
  withdrawn. The run above reaches \<open>db5\<close> without an error: the invariant holds in
  \<open>db4\<close>, and after volunteer 7 withdraws a second time the counter of case 100 is 0
  while volunteer 8 is still active on it.
\<close>

theorem volunteer_count_drifts_on_repeated_withdraw:
  "fst (caseService_Accept (env_at 11) db1 100 7 no_location) = None
   \<and> fst (caseService_Accept (env_at 12) db2 100 8 no_location) = None
   \<and> fst (caseService_Withdraw (env_at 13) db3 100 7) = None
   \<and> fst (caseService_Withdraw (env_at 14) db4 100 7) = None
   \<and> volunteer_count_invariant db4
   \<and> map c_VolunteerCount (cases db5) = [0]
   \<and> active_records db5 100 = 1
   \<and> \<not> volunteer_count_invariant db5"
  by (simp add: run_has_no_errors db4_tables db5_tables volunteer_count_invariant_def
        count_matches_records_def active_records_def accepted_case_def example_case_def
        case_row_def example_record_def)

text \<open>Two more ways in which the counter leaves the records behind: a status update
  to \<open>withdrawn\<close> does not touch it, and with the schema's trigger installed a first
  \<open>Accept\<close> counts the new record twice.\<close>

lemma status_update_to_withdrawn_keeps_count:
  "fst (caseService_UpdateVolunteerStatus (env_at 13) db3 100 7 withdrawn_req) = None
   \<and> map c_VolunteerCount
        (cases (fst (snd (caseService_UpdateVolunteerStatus (env_at 13) db3 100 7 withdrawn_req))))
      = [2]
   \<and> active_records
        (fst (snd (caseService_UpdateVolunteerStatus (env_at 13) db3 100 7 withdrawn_req))) 100
      = 1"
  by (simp add: db3_tables caseService_UpdateVolunteerStatus_def repo_defs update_where_def
        volunteer_name_def example_defs withdrawn_req_def Let_def is_volunteer_def
        active_records_def)

lemma trigger_counts_insert_twice:
  "map c_VolunteerCount (cases dbt2) = [2] \<and> active_records dbt2 100 = 1"
  by (simp add: dbt2_def caseService_Create_def caseRepository_Create_def create_details_def
        created_case_def caseService_Accept_def repo_defs update_where_def IsActive_def
        example_defs Let_def is_volunteer_def active_records_def)

text \<open>
  Claim C2 says that \<open>Withdraw\<close> fails with \<open>NOT_ACCEPTED\<close> exactly when the volunteer
  has no record on the case that is not withdrawn. In \<open>db4\<close> the only record of
  volunteer 7 on case 100 is withdrawn; \<open>Withdraw\<close> returns no error and takes the
  counter from 1 to 0, with one active record left.
\<close>

theorem withdraw_accepts_withdrawn_record:
  "map cv_Status (filter (is_volunteer 100 7) (case_volunteers db4)) = [VolunteerStatusWithdrawn]
   \<and> active_records db4 100 = 1
   \<and> map c_VolunteerCount (cases db4) = [1]
   \<and> fst (caseService_Withdraw (env_at 14) db4 100 7) = None
   \<and> map c_VolunteerCount (cases (snd (caseService_Withdraw (env_at 14) db4 100 7))) = [0]
   \<and> active_records (snd (caseService_Withdraw (env_at 14) db4 100 7)) 100 = 1"
  using db5_tables
  by (simp add: run_has_no_errors db4_tables db5_def [symmetric] active_records_def
        accepted_case_def is_volunteer_def example_record_def)

text \<open>What decides the \<open>NOT_ACCEPTED\<close> failure in the code is the absence of any
  record, withdrawn or not.\<close>

lemma withdraw_not_accepted_iff_no_record:
  assumes "\<not> fails env SelectCaseVolunteer"
  shows "fst (caseService_Withdraw env db caseID volunteerID)
           = Some (NewAppError ''NOT_ACCEPTED'' ''You have not accepted this case'' 400)
         \<longleftrightarrow> find (is_volunteer caseID volunteerID) (case_volunteers db) = None"
  using assms
  by (auto simp: caseService_Withdraw_def repo_defs NewAppError_def Let_def
           split: option.splits if_splits)


section \<open>Accept\<close>

lemma accept_keeps_status_if_not_pending:
  assumes "find (\<lambda>r. c_ID r = caseID) (cases db) = Some c"
    and "c_Status c \<noteq> CaseStatusPending"
  shows "map_option c_Status
           (find (\<lambda>r. c_ID r = caseID)
              (cases (fst (snd (caseService_Accept env db caseID volunteerID req)))))
         = Some (c_Status c)"
  using assms
  by (auto simp: caseService_Accept_def repo_defs find_update_where Let_def
           split: option.splits sum.splits prod.splits if_splits)

text \<open>
  Claim C5. When no statement fails, \<open>Accept\<close> by an existing user with no record on a
  pending case that is under capacity returns no error, and the case is then
  \<open>accepted\<close> with \<open>acceptedAt\<close> set to the time of the call. On a case that is
  \<open>accepted\<close> or \<open>in_progress\<close>, \<open>Accept\<close> leaves the case status as it was,
  whatever it returns.
\<close>

theorem accept_case_status:
  "(fails env = (\<lambda>st. False)
     \<and> find (\<lambda>r. c_ID r = caseID) (cases db) = Some c
     \<and> c_Status c = CaseStatusPending \<and> c_VolunteerCount c < c_MaxVolunteers c
     \<and> find (\<lambda>u. u_ID u = volunteerID) (users db) = Some volunteer
     \<and> find (is_volunteer caseID volunteerID) (case_volunteers db) = None
    \<longrightarrow> (\<exists>db' tasks c'.
           caseService_Accept env db caseID volunteerID req = (None, db', tasks)
         \<and> find (\<lambda>r. c_ID r = caseID) (cases db') = Some c'
         \<and> c_Status c' = CaseStatusAccepted \<and> c_AcceptedAt c' = Some (now env)))
   \<and> (find (\<lambda>r. c_ID r = caseID) (cases db) = Some c
       \<and> (c_Status c = CaseStatusAccepted \<or> c_Status c = CaseStatusInProgress)
    \<longrightarrow> map_option c_Status
           (find (\<lambda>r. c_ID r = caseID)
              (cases (fst (snd (caseService_Accept env db caseID volunteerID req)))))
         = Some (c_Status c))"
proof (intro conjI impI)
  assume h: "fails env = (\<lambda>st. False)
     \<and> find (\<lambda>r. c_ID r = caseID) (cases db) = Some c
     \<and> c_Status c = CaseStatusPending \<and> c_VolunteerCount c < c_MaxVolunteers c
     \<and> find (\<lambda>u. u_ID u = volunteerID) (users db) = Some volunteer
     \<and> find (is_volunteer caseID volunteerID) (case_volunteers db) = None"
  then have cid: "c_ID c = caseID"
    by (auto simp: find_Some_iff)
  with h show "\<exists>db' tasks c'.
           caseService_Accept env db caseID volunteerID req = (None, db', tasks)
         \<and> find (\<lambda>r. c_ID r = caseID) (cases db') = Some c'
         \<and> c_Status c' = CaseStatusAccepted \<and> c_AcceptedAt c' = Some (now env)"
    by (auto simp: caseService_Accept_def repo_defs find_update_where Let_def IsActive_def
             split: option.splits prod.splits)
next
  assume "find (\<lambda>r. c_ID r = caseID) (cases db) = Some c
       \<and> (c_Status c = CaseStatusAccepted \<or> c_Status c = CaseStatusInProgress)"
  then show "map_option c_Status
           (find (\<lambda>r. c_ID r = caseID)
              (cases (fst (snd (caseService_Accept env db caseID volunteerID req)))))
         = Some (c_Status c)"
    using accept_keeps_status_if_not_pending [of caseID db c env volunteerID req] by auto
qed

text \<open>Volunteer 7 accepts the pending case of \<open>db1\<close>; volunteer 8 accepts the
  accepted case of \<open>db2\<close>.\<close>

theorem accept_case_status_witness:
  "fails (env_at 11) = (\<lambda>st. False)
   \<and> find (\<lambda>r. c_ID r = 100) (cases db1) = Some (example_case (Some 9))
   \<and> c_Status (example_case (Some 9)) = CaseStatusPending
   \<and> c_VolunteerCount (example_case (Some 9)) < c_MaxVolunteers (example_case (Some 9))
   \<and> find (\<lambda>u. u_ID u = 7) (users db1) = Some (example_user 7 ''An'')
   \<and> find (is_volunteer 100 7) (case_volunteers db1) = None
   \<and> (\<exists>db' tasks c'.
         caseService_Accept (env_at 11) db1 100 7 no_location = (None, db', tasks)
       \<and> find (\<lambda>r. c_ID r = 100) (cases db') = Some c'
       \<and> c_Status c' = CaseStatusAccepted \<and> c_AcceptedAt c' = Some (now (env_at 11)))
   \<and> find (\<lambda>r. c_ID r = 100) (cases db2) = Some (accepted_case 1)
   \<and> c_Status (accepted_case 1) = CaseStatusAccepted
   \<and> map_option c_Status
        (find (\<lambda>r. c_ID r = 100)
           (cases (fst (snd (caseService_Accept (env_at 12) db2 100 8 no_location)))))
      = Some CaseStatusAccepted"
proof -
  have a: "fails (env_at 11) = (\<lambda>st. False)
     \<and> find (\<lambda>r. c_ID r = 100) (cases db1) = Some (example_case (Some 9))
     \<and> c_Status (example_case (Some 9)) = CaseStatusPending
     \<and> c_VolunteerCount (example_case (Some 9)) < c_MaxVolunteers (example_case (Some 9))
     \<and> find (\<lambda>u. u_ID u = 7) (users db1) = Some (example_user 7 ''An'')
     \<and> find (is_volunteer 100 7) (case_volunteers db1) = None"
    by (simp add: db1_tables example_defs)
  have b: "find (\<lambda>r. c_ID r = 100) (cases db2) = Some (accepted_case 1)
     \<and> (c_Status (accepted_case 1) = CaseStatusAccepted
        \<or> c_Status (accepted_case 1) = CaseStatusInProgress)"
    by (simp add: db2_tables example_defs)
  from a b
    accept_case_status [where env = "env_at 11" and db = db1 and caseID = 100
      and c = "example_case (Some 9)" and volunteerID = 7
      and volunteer = "example_user 7 ''An''" and req = no_location]
    accept_case_status [where env = "env_at 12" and db = db2 and caseID = 100
      and c = "accepted_case 1" and volunteerID = 8 and req = no_location]
  show ?thesis
    by (simp add: accepted_case_def)
qed


text \<open>
  Claim C4. When no statement fails and an existing user calls \<open>Accept\<close> on an active,
  under-capacity case on which their record is withdrawn, the call returns no error; the
  table holds the same records as before (no new one); the volunteer's record keeps its
  identifier, has status \<open>accepted\<close> and no arrival or completion time; and the case's
  \<open>volunteerCount\<close> is one more than before. When their record is in any other status,
  \<open>Accept\<close> fails with \<open>ALREADY_ACCEPTED\<close> and changes nothing.
\<close>

theorem accept_reactivates_withdrawn_record:
  "(fails env = (\<lambda>st. False)
     \<and> find (\<lambda>r. c_ID r = caseID) (cases db) = Some c
     \<and> IsActive (c_Status c) \<and> c_VolunteerCount c < c_MaxVolunteers c
     \<and> find (\<lambda>u. u_ID u = volunteerID) (users db) = Some volunteer
     \<and> find (is_volunteer caseID volunteerID) (case_volunteers db) = Some existing
     \<and> cv_Status existing = VolunteerStatusWithdrawn
    \<longrightarrow> (\<exists>db' tasks cv' c'.
           caseService_Accept env db caseID volunteerID req = (None, db', tasks)
         \<and> map cv_ID (case_volunteers db') = map cv_ID (case_volunteers db)
         \<and> find (is_volunteer caseID volunteerID) (case_volunteers db') = Some cv'
         \<and> cv_ID cv' = cv_ID existing
         \<and> cv_Status cv' = VolunteerStatusAccepted
         \<and> cv_ArrivedAt cv' = None \<and> cv_CompletedAt cv' = None
         \<and> find (\<lambda>r. c_ID r = caseID) (cases db') = Some c'
         \<and> c_VolunteerCount c' = c_VolunteerCount c + 1))
   \<and> (\<not> fails env SelectCase \<and> \<not> fails env SelectUser \<and> \<not> fails env SelectCaseVolunteer
     \<and> find (\<lambda>r. c_ID r = caseID) (cases db) = Some c
     \<and> IsActive (c_Status c) \<and> c_VolunteerCount c < c_MaxVolunteers c
     \<and> find (\<lambda>u. u_ID u = volunteerID) (users db) = Some volunteer
     \<and> find (is_volunteer caseID volunteerID) (case_volunteers db) = Some existing
     \<and> cv_Status existing \<noteq> VolunteerStatusWithdrawn
    \<longrightarrow> caseService_Accept env db caseID volunteerID req
          = (Some (AppError ''ALREADY_ACCEPTED'' ''You have already accepted this case'' 400),
             db, []))"
proof (intro conjI impI)
  assume h: "fails env = (\<lambda>st. False)
     \<and> find (\<lambda>r. c_ID r = caseID) (cases db) = Some c
     \<and> IsActive (c_Status c) \<and> c_VolunteerCount c < c_MaxVolunteers c
     \<and> find (\<lambda>u. u_ID u = volunteerID) (users db) = Some volunteer
     \<and> find (is_volunteer caseID volunteerID) (case_volunteers db) = Some existing
     \<and> cv_Status existing = VolunteerStatusWithdrawn"
  then have cid: "c_ID c = caseID" and ex: "is_volunteer caseID volunteerID existing"
    by (auto simp: find_Some_iff)
  with h show "\<exists>db' tasks cv' c'.
           caseService_Accept env db caseID volunteerID req = (None, db', tasks)
         \<and> map cv_ID (case_volunteers db') = map cv_ID (case_volunteers db)
         \<and> find (is_volunteer caseID volunteerID) (case_volunteers db') = Some cv'
         \<and> cv_ID cv' = cv_ID existing
         \<and> cv_Status cv' = VolunteerStatusAccepted
         \<and> cv_ArrivedAt cv' = None \<and> cv_CompletedAt cv' = None
         \<and> find (\<lambda>r. c_ID r = caseID) (cases db') = Some c'
         \<and> c_VolunteerCount c' = c_VolunteerCount c + 1"
    by (auto simp: caseService_Accept_def repo_defs find_update_where map_key_update_where
                   Let_def is_volunteer_def
             split: option.splits prod.splits)
next
  assume "\<not> fails env SelectCase \<and> \<not> fails env SelectUser \<and> \<not> fails env SelectCaseVolunteer
     \<and> find (\<lambda>r. c_ID r = caseID) (cases db) = Some c
     \<and> IsActive (c_Status c) \<and> c_VolunteerCount c < c_MaxVolunteers c
     \<and> find (\<lambda>u. u_ID u = volunteerID) (users db) = Some volunteer
     \<and> find (is_volunteer caseID volunteerID) (case_volunteers db) = Some existing
     \<and> cv_Status existing \<noteq> VolunteerStatusWithdrawn"
  then show "caseService_Accept env db caseID volunteerID req
          = (Some (AppError ''ALREADY_ACCEPTED'' ''You have already accepted this case'' 400),
             db, [])"
    by (auto simp: caseService_Accept_def repo_defs NewAppError_def split: option.splits prod.splits)
qed

text \<open>In \<open>db4\<close> volunteer 7 has withdrawn and volunteer 8 is active.\<close>

theorem accept_reactivates_withdrawn_record_witness:
  "fails (env_at 15) = (\<lambda>st. False)
   \<and> find (\<lambda>r. c_ID r = 100) (cases db4) = Some (accepted_case 1)
   \<and> IsActive (c_Status (accepted_case 1))
   \<and> c_VolunteerCount (accepted_case 1) < c_MaxVolunteers (accepted_case 1)
   \<and> find (\<lambda>u. u_ID u = 7) (users db4) = Some (example_user 7 ''An'')
   \<and> find (is_volunteer 100 7) (case_volunteers db4)
        = Some (example_record 110 7 11 VolunteerStatusWithdrawn)
   \<and> (\<exists>db' tasks cv' c'.
         caseService_Accept (env_at 15) db4 100 7 no_location = (None, db', tasks)
       \<and> map cv_ID (case_volunteers db') = map cv_ID (case_volunteers db4)
       \<and> find (is_volunteer 100 7) (case_volunteers db') = Some cv'
       \<and> cv_ID cv' = 110 \<and> cv_Status cv' = VolunteerStatusAccepted
       \<and> cv_ArrivedAt cv' = None \<and> cv_CompletedAt cv' = None
       \<and> find (\<lambda>r. c_ID r = 100) (cases db') = Some c'
       \<and> c_VolunteerCount c' = 2)
   \<and> find (is_volunteer 100 8) (case_volunteers db4)
        = Some (example_record 120 8 12 VolunteerStatusAccepted)
   \<and> caseService_Accept (env_at 15) db4 100 8 no_location
        = (Some (AppError ''ALREADY_ACCEPTED'' ''You have already accepted this case'' 400),
           db4, [])"
proof -
  have a: "fails (env_at 15) = (\<lambda>st. False)
     \<and> find (\<lambda>r. c_ID r = 100) (cases db4) = Some (accepted_case 1)
     \<and> IsActive (c_Status (accepted_case 1))
     \<and> c_VolunteerCount (accepted_case 1) < c_MaxVolunteers (accepted_case 1)
     \<and> find (\<lambda>u. u_ID u = 7) (users db4) = Some (example_user 7 ''An'')
     \<and> find (is_volunteer 100 7) (case_volunteers db4)
          = Some (example_record 110 7 11 VolunteerStatusWithdrawn)
     \<and> cv_Status (example_record 110 7 11 VolunteerStatusWithdrawn) = VolunteerStatusWithdrawn"
    by (simp add: db4_tables example_defs IsActive_def is_volunteer_def)
  have b: "\<not> fails (env_at 15) SelectCase \<and> \<not> fails (env_at 15) SelectUser
     \<and> \<not> fails (env_at 15) SelectCaseVolunteer
     \<and> find (\<lambda>u. u_ID u = 8) (users db4) = Some (example_user 8 ''Binh'')
     \<and> find (is_volunteer 100 8) (case_volunteers db4)
          = Some (example_record 120 8 12 VolunteerStatusAccepted)
     \<and> cv_Status (example_record 120 8 12 VolunteerStatusAccepted) \<noteq> VolunteerStatusWithdrawn"
    by (simp add: db4_tables example_defs is_volunteer_def)
  from a b
    accept_reactivates_withdrawn_record [where env = "env_at 15" and db = db4 and caseID = 100
      and c = "accepted_case 1" and volunteerID = 7 and volunteer = "example_user 7 ''An''"
      and existing = "example_record 110 7 11 VolunteerStatusWithdrawn" and req = no_location]
    accept_reactivates_withdrawn_record [where env = "env_at 15" and db = db4 and caseID = 100
      and c = "accepted_case 1" and volunteerID = 8 and volunteer = "example_user 8 ''Binh''"
      and existing = "example_record 120 8 12 VolunteerStatusAccepted" and req = no_location]
  show ?thesis
    by (simp add: accepted_case_def example_record_def)
qed


section \<open>Completion aggregation\<close>

lemma find_update_where_same:
  assumes "\<And>r. P (f r) = P r"
  shows "find P (update_where P f rows) = map_option f (find P rows)"
  using assms by (induction rows) (auto simp: update_where_def)

lemma allDone_iff: "allDone vs \<longleftrightarrow> list_all record_done vs"
  by (induction vs) (auto simp: record_done_def)

lemma credit_completed_users:
  assumes "\<not> fails env IncrementUserCasesResolved"
  shows "credit_completed env vs db =
           db\<lparr>users := map (\<lambda>u. u\<lparr>u_TotalCasesResolved :=
                                   u_TotalCasesResolved u + int (completed_by (u_ID u) vs)\<rparr>)
                          (users db)\<rparr>"
  using assms
proof (induction vs arbitrary: db)
  case Nil
  then show ?case by (simp add: completed_by_def)
next
  case (Cons v vs)
  then show ?case
    by (simp add: completed_by_def userRepository_IncrementCasesResolved_def Transaction_def
          exec_def update_where_def comp_def)
qed

lemma completed_by_sort: "completed_by userID (sort_key f rows) = completed_by userID rows"
  by (simp add: completed_by_def filter_sort)

text \<open>
  Claim C3. An \<open>UpdateVolunteerStatus\<close> to \<open>completed\<close> that succeeds starts exactly
  the completion check for that case. When no statement fails, the check on a case whose
  records are non-empty and all completed or withdrawn sets the case to \<open>resolved\<close>
  (stamping \<open>resolvedAt\<close>) and adds, to every user's resolved-case counter, the number
  of completed records that user holds on the case. Otherwise the check leaves the
  database as it was.
\<close>

theorem completion_aggregation:
  "(caseService_UpdateVolunteerStatus env db caseID volunteerID req = (None, db', tasks)
      \<and> vreq_Status req = VolunteerStatusCompleted
    \<longrightarrow> tasks = [GoCheckCaseCompletion caseID volunteerID]
        \<and> run_task env' (GoCheckCaseCompletion caseID volunteerID) db'
            = checkCaseCompletion env' db' caseID volunteerID)
   \<and> (fails env = (\<lambda>st. False)
      \<and> case_records db caseID \<noteq> [] \<and> list_all record_done (case_records db caseID)
    \<longrightarrow> find (\<lambda>r. c_ID r = caseID) (cases (checkCaseCompletion env db caseID volunteerID))
          = map_option (\<lambda>r. r\<lparr>c_Status := CaseStatusResolved, c_ResolvedAt := Some (now env)\<rparr>)
              (find (\<lambda>r. c_ID r = caseID) (cases db))
        \<and> users (checkCaseCompletion env db caseID volunteerID)
          = map (\<lambda>u. u\<lparr>u_TotalCasesResolved :=
                         u_TotalCasesResolved u
                         + int (completed_by (u_ID u) (case_records db caseID))\<rparr>) (users db))
   \<and> (\<not> (case_records db caseID \<noteq> [] \<and> list_all record_done (case_records db caseID))
    \<longrightarrow> checkCaseCompletion env db caseID volunteerID = db)"
proof (intro conjI impI)
  assume "caseService_UpdateVolunteerStatus env db caseID volunteerID req = (None, db', tasks)
      \<and> vreq_Status req = VolunteerStatusCompleted"
  then show "tasks = [GoCheckCaseCompletion caseID volunteerID]"
    by (auto simp: caseService_UpdateVolunteerStatus_def Let_def
             split: sum.splits option.splits prod.splits)
next
  show "run_task env' (GoCheckCaseCompletion caseID volunteerID) db'
            = checkCaseCompletion env' db' caseID volunteerID"
    by simp
next
  assume h: "fails env = (\<lambda>st. False)
      \<and> case_records db caseID \<noteq> [] \<and> list_all record_done (case_records db caseID)"
  let ?vs = "sort_key cv_AcceptedAt (case_records db caseID)"
  from h have vs: "caseRepository_GetVolunteersByCaseID env db caseID = Inr ?vs"
    by (simp add: caseRepository_GetVolunteersByCaseID_def case_records_def)
  from h have alld: "allDone ?vs" and ne: "length ?vs > 0"
    by (simp_all add: allDone_iff list_all_iff)
  from h have nf: "\<not> fails env IncrementUserCasesResolved" by simp
  have eq: "checkCaseCompletion env db caseID volunteerID
          = credit_completed env ?vs
              (db\<lparr>cases := update_where (\<lambda>r. c_ID r = caseID)
                   (\<lambda>r. r\<lparr>c_Status := CaseStatusResolved, c_ResolvedAt := Some (now env)\<rparr>)
                   (cases db)\<rparr>)"
    using h alld ne
    by (simp add: checkCaseCompletion_def vs caseRepository_UpdateStatus_def Transaction_def
          exec_def del: length_greater_0_conv)
  show "find (\<lambda>r. c_ID r = caseID) (cases (checkCaseCompletion env db caseID volunteerID))
          = map_option (\<lambda>r. r\<lparr>c_Status := CaseStatusResolved, c_ResolvedAt := Some (now env)\<rparr>)
              (find (\<lambda>r. c_ID r = caseID) (cases db))"
    by (simp add: eq credit_completed_users [OF nf] find_update_where_same)
  show "users (checkCaseCompletion env db caseID volunteerID)
          = map (\<lambda>u. u\<lparr>u_TotalCasesResolved :=
                         u_TotalCasesResolved u
                         + int (completed_by (u_ID u) (case_records db caseID))\<rparr>) (users db)"
    by (simp add: eq credit_completed_users [OF nf] completed_by_sort)
next
  assume h: "\<not> (case_records db caseID \<noteq> [] \<and> list_all record_done (case_records db caseID))"
  then show "checkCaseCompletion env db caseID volunteerID = db"
    by (auto simp: checkCaseCompletion_def caseRepository_GetVolunteersByCaseID_def
          case_records_def allDone_iff list_all_iff)
qed

lemma dbc1_tables:
  "cases dbc1 = [accepted_case 2]"
  "case_volunteers dbc1
     = [(example_record 110 7 11 VolunteerStatusCompleted)\<lparr>cv_CompletedAt := Some 13\<rparr>,
        example_record 120 8 12 VolunteerStatusAccepted]"
  "users dbc1 = users db_start"
  "snd (snd (caseService_UpdateVolunteerStatus (env_at 13) db3 100 7 completed_req))
     = [GoCheckCaseCompletion 100 7]"
  "fst (caseService_UpdateVolunteerStatus (env_at 13) db3 100 7 completed_req) = None"
  by (simp_all add: dbc1_def db3_tables caseService_UpdateVolunteerStatus_def repo_defs
        update_where_def volunteer_name_def example_defs Let_def is_volunteer_def)

lemma dbc2_tables:
  "cases dbc2 = [accepted_case 2]"
  "case_volunteers dbc2
     = [(example_record 110 7 11 VolunteerStatusCompleted)\<lparr>cv_CompletedAt := Some 13\<rparr>,
        (example_record 120 8 12 VolunteerStatusCompleted)\<lparr>cv_CompletedAt := Some 14\<rparr>]"
  "users dbc2 = users db_start"
  by (simp_all add: dbc2_def dbc1_tables caseService_UpdateVolunteerStatus_def repo_defs
        update_where_def volunteer_name_def example_defs Let_def is_volunteer_def)

text \<open>Volunteer 7 completes while volunteer 8 is still active: the check changes
  nothing. Then volunteer 8 completes: the case is resolved and both are credited.\<close>

theorem completion_aggregation_witness:
  "caseService_UpdateVolunteerStatus (env_at 13) db3 100 7 completed_req
     = (None, dbc1, [GoCheckCaseCompletion 100 7])
   \<and> vreq_Status completed_req = VolunteerStatusCompleted
   \<and> run_task (env_at 14) (GoCheckCaseCompletion 100 7) dbc1
        = checkCaseCompletion (env_at 14) dbc1 100 7
   \<and> \<not> (case_records dbc1 100 \<noteq> [] \<and> list_all record_done (case_records dbc1 100))
   \<and> checkCaseCompletion (env_at 14) dbc1 100 7 = dbc1
   \<and> fails (env_at 15) = (\<lambda>st. False)
   \<and> case_records dbc2 100 \<noteq> [] \<and> list_all record_done (case_records dbc2 100)
   \<and> map_option c_Status
        (find (\<lambda>r. c_ID r = 100) (cases (checkCaseCompletion (env_at 15) dbc2 100 8)))
      = Some CaseStatusResolved
   \<and> map u_TotalCasesResolved (users (checkCaseCompletion (env_at 15) dbc2 100 8)) = [1, 1, 0]"
proof -
  have a: "caseService_UpdateVolunteerStatus (env_at 13) db3 100 7 completed_req
             = (None, dbc1, [GoCheckCaseCompletion 100 7])
     \<and> vreq_Status completed_req = VolunteerStatusCompleted"
    using dbc1_tables(4,5)
    by (cases "caseService_UpdateVolunteerStatus (env_at 13) db3 100 7 completed_req")
       (simp add: dbc1_def completed_req_def)
  have b: "\<not> (case_records dbc1 100 \<noteq> [] \<and> list_all record_done (case_records dbc1 100))"
    by (simp add: case_records_def dbc1_tables record_done_def example_record_def)
  have c: "fails (env_at 15) = (\<lambda>st. False)
     \<and> case_records dbc2 100 \<noteq> [] \<and> list_all record_done (case_records dbc2 100)"
    by (simp add: case_records_def dbc2_tables record_done_def example_record_def env_at_def)
  have p1: "run_task (env_at 14) (GoCheckCaseCompletion 100 7) dbc1
              = checkCaseCompletion (env_at 14) dbc1 100 7"
    using a completion_aggregation [where env = "env_at 13" and db = db3 and caseID = 100
      and volunteerID = 7 and req = completed_req and db' = dbc1
      and tasks = "[GoCheckCaseCompletion 100 7]" and env' = "env_at 14"]
    by blast
  have p2: "checkCaseCompletion (env_at 14) dbc1 100 7 = dbc1"
    using b completion_aggregation [where env = "env_at 14" and db = dbc1 and caseID = 100
      and volunteerID = 7]
    by blast
  have p3: "find (\<lambda>r. c_ID r = 100) (cases (checkCaseCompletion (env_at 15) dbc2 100 8))
          = map_option (\<lambda>r. r\<lparr>c_Status := CaseStatusResolved,
                                c_ResolvedAt := Some (now (env_at 15))\<rparr>)
              (find (\<lambda>r. c_ID r = 100) (cases dbc2))
        \<and> users (checkCaseCompletion (env_at 15) dbc2 100 8)
          = map (\<lambda>u. u\<lparr>u_TotalCasesResolved :=
                         u_TotalCasesResolved u
                         + int (completed_by (u_ID u) (case_records dbc2 100))\<rparr>) (users dbc2)"
    using c completion_aggregation [where env = "env_at 15" and db = dbc2 and caseID = 100
      and volunteerID = 8]
    by blast
  have q1: "map_option c_Status
        (find (\<lambda>r. c_ID r = 100) (cases (checkCaseCompletion (env_at 15) dbc2 100 8)))
      = Some CaseStatusResolved"
    by (simp add: p3 dbc2_tables accepted_case_def example_case_def case_row_def)
  have q2: "map u_TotalCasesResolved (users (checkCaseCompletion (env_at 15) dbc2 100 8))
      = [1, 1, 0]"
    by (simp add: p3 dbc2_tables case_records_def completed_by_def example_record_def
          db_start_def example_user_def)
  from a b c p1 p2 q1 q2 show ?thesis by simp
qed


section \<open>The matcher\<close>

















section \<open>Create\<close>






section \<open>The bounding box\<close>

subsection \<open>A lower bound for \<open>pi\<close>\<close>

lemma sin_upper_6:
  fixes x :: real
  assumes "0 \<le> x"
  shows "sin x \<le> x - x^3 / 6 + x^5 / 120 + x^6 / 720"
proof -
  have coeff: "sin_coeff 0 = 0" "sin_coeff (Suc 0) = 1" "sin_coeff 2 = 0" "sin_coeff 3 = - 1 / 6"
      "sin_coeff 4 = 0" "sin_coeff 5 = 1 / 120"
    by (simp_all add: sin_coeff_def fact_numeral)
  have "(\<Sum>m<6. sin_coeff m * x ^ m)
      = sin_coeff 0 * x^0 + sin_coeff 1 * x^1 + sin_coeff 2 * x^2 + sin_coeff 3 * x^3
        + sin_coeff 4 * x^4 + sin_coeff 5 * x^5"
    by (simp add: eval_nat_numeral)
  then have poly: "(\<Sum>m<6. sin_coeff m * x ^ m) = x - x^3 / 6 + x^5 / 120"
    by (simp add: coeff)
  have "(fact 6 :: real) = 720"
    by (simp add: fact_numeral)
  then have err: "inverse (fact 6) * \<bar>x\<bar> ^ 6 = x^6 / 720"
    using assms by simp
  have "\<bar>sin x - (\<Sum>m<6. sin_coeff m * x ^ m)\<bar> \<le> inverse (fact 6) * \<bar>x\<bar> ^ 6"
    by (rule Maclaurin_sin_bound)
  then have "\<bar>sin x - (x - x^3 / 6 + x^5 / 120)\<bar> \<le> x^6 / 720"
    by (simp only: poly err)
  then show ?thesis by linarith
qed

lemma pi_sixth_lower: "5227 / 10000 \<le> pi / 6"
proof (rule ccontr)
  define x where "x = pi / 6"
  assume "\<not> 5227 / 10000 \<le> pi / 6"
  then have ub: "x < 5227 / 10000" by (simp add: x_def)
  have x0: "0 \<le> x" by (simp add: x_def)
  have half: "sin x = 1 / 2" by (simp add: x_def sin_30)
  have s: "1 / 2 \<le> x - x^3 / 6 + x^5 / 120 + x^6 / 720"
    using sin_upper_6 [OF x0] half by simp
  have lb1: "1 / 2 \<le> x"
    using sin_x_le_x [OF x0] half by simp
  have p5: "x^5 \<le> (5227 / 10000)^5"
    using ub x0 by (intro power_mono) simp_all
  have p6: "x^6 \<le> (5227 / 10000)^6"
    using ub x0 by (intro power_mono) simp_all
  have p3: "(1 / 2)^3 \<le> x^3"
    using lb1 by (intro power_mono) simp_all
  have lb2: "5204 / 10000 \<le> x"
    using s p3 p5 p6 by (simp add: power_divide)
  have p3': "(5204 / 10000)^3 \<le> x^3"
    using lb2 by (intro power_mono) simp_all
  have "5227 / 10000 \<le> x"
    using s p3' p5 p6 by (simp add: power_divide)
  with ub show False by simp
qed

lemma pi_lower: "19980 / 6371 \<le> pi"
  using pi_sixth_lower by simp

subsection \<open>The haversine angle\<close>




subsection \<open>Two points on either side of the antimeridian\<close>

lemma Atan2_sin_cos:
  assumes "0 \<le> e" and "e < pi / 2"
  shows "Atan2 (sqrt ((sin e)\<^sup>2)) (sqrt (1 - (sin e)\<^sup>2)) = e"
proof -
  have s0: "0 \<le> sin e" using assms by (intro sin_ge_zero) (use pi_gt_zero in linarith)+
  have c0: "0 < cos e" using assms by (intro cos_gt_zero_pi) (use pi_gt_zero in linarith)+
  have "1 - (sin e)\<^sup>2 = (cos e)\<^sup>2"
    using sin_cos_squared_add [of e] by linarith
  then have "sqrt (1 - (sin e)\<^sup>2) = cos e" using c0 by simp
  moreover have "sqrt ((sin e)\<^sup>2) = sin e" using s0 by simp
  moreover have "arctan (sin e / cos e) = e"
    using assms arctan_tan [of e] by (simp add: tan_def)
  ultimately show ?thesis using c0 by (simp add: Atan2_def)
qed






subsection \<open>Two points on either side of the pole\<close>

lemma sin_lower_4:
  fixes x :: real
  assumes "0 \<le> x"
  shows "x - x^3 / 6 - x^4 / 24 \<le> sin x"
proof -
  have coeff: "sin_coeff 0 = 0" "sin_coeff (Suc 0) = 1" "sin_coeff 2 = 0" "sin_coeff 3 = - 1 / 6"
    by (simp_all add: sin_coeff_def fact_numeral)
  have "(\<Sum>m<4. sin_coeff m * x ^ m)
      = sin_coeff 0 * x^0 + sin_coeff 1 * x^1 + sin_coeff 2 * x^2 + sin_coeff 3 * x^3"
    by (simp add: eval_nat_numeral)
  then have poly: "(\<Sum>m<4. sin_coeff m * x ^ m) = x - x^3 / 6"
    by (simp add: coeff)
  have "(fact 4 :: real) = 24"
    by (simp add: fact_numeral)
  then have err: "inverse (fact 4) * \<bar>x\<bar> ^ 4 = x^4 / 24"
    using assms by simp
  have "\<bar>sin x - (\<Sum>m<4. sin_coeff m * x ^ m)\<bar> \<le> inverse (fact 4) * \<bar>x\<bar> ^ 4"
    by (rule Maclaurin_sin_bound)
  then have "\<bar>sin x - (x - x^3 / 6)\<bar> \<le> x^4 / 24"
    by (simp only: poly err)
  then show ?thesis by linarith
qed

lemma sin_tenth_degree: "16 / 10000 \<le> sin (pi / 1800)"
proof -
  define x where "x = pi / 1800"
  have lo: "17 / 10000 \<le> x"
    using pi_lower by (simp add: x_def)
  have hi: "x \<le> 1 / 100"
    using pi_less_4 by (simp add: x_def)
  have x0: "0 \<le> x" using lo by simp
  have p3: "x^3 \<le> (1 / 100)^3" using hi x0 by (intro power_mono) simp_all
  have p4: "x^4 \<le> (1 / 100)^4" using hi x0 by (intro power_mono) simp_all
  have "16 / 10000 \<le> x - x^3 / 6 - x^4 / 24"
    using lo p3 p4 by (simp add: power_divide)
  with sin_lower_4 [OF x0] show ?thesis
    unfolding x_def by linarith
qed

lemma near_pole_distance:
  "DistanceKm (NewGeoPoint (899 / 10) (- 90)) (NewGeoPoint (899 / 10) 90) = 6371 * pi / 900"
proof -
  define e where "e = pi / 1800"
  have e: "0 \<le> e" "e < pi / 2" by (simp_all add: e_def)
  have "899 * pi / 1800 = pi / 2 - e" by (simp add: e_def)
  then have c: "cos (899 * pi / 1800) = sin e" by (simp only: cos_pi_minus sin_cos_eq) simp
  have s0: "0 \<le> sin e" using e by (intro sin_ge_zero) (use pi_gt_zero in linarith)+
  have at: "Atan2 (sin e) (sqrt (1 - sin e * sin e)) = e"
    using Atan2_sin_cos [OF e] s0 by (simp add: power2_eq_square)
  have "DistanceKm (NewGeoPoint (899 / 10) (- 90)) (NewGeoPoint (899 / 10) 90)
        = earthRadiusKm * (2 * e)"
    using s0 by (simp add: DistanceKm_def NewGeoPoint_def Let_def c at)
  then show ?thesis
    by (simp add: earthRadiusKm_def e_def)
qed

text \<open>The longitude bounds also fail without any wrap-around: (89.9, -90) and
  (89.9, 90) are less than 30 km apart across the pole, and the box of radius 30 km
  around the first ends before longitude 90.\<close>

lemma bounding_box_excludes_match_near_pole:
  "DistanceKm (NewGeoPoint (899 / 10) (- 90)) (NewGeoPoint (899 / 10) 90) \<le> 30
   \<and> MinLat (NewBoundingBox (899 / 10) (- 90) 30) \<le> 899 / 10
   \<and> 899 / 10 \<le> MaxLat (NewBoundingBox (899 / 10) (- 90) 30)
   \<and> MaxLng (NewBoundingBox (899 / 10) (- 90) 30) < 90
   \<and> \<not> Contains (NewBoundingBox (899 / 10) (- 90) 30) (899 / 10) 90"
proof -
  define e where "e = pi / 1800"
  have "899 * pi / 1800 = pi / 2 - e" by (simp add: e_def)
  then have c: "cos (899 * pi / 1800) = sin e" by (simp only: sin_cos_eq) simp
  have s: "16 / 10000 \<le> sin e" using sin_tenth_degree by (simp add: e_def)
  have "30 / (111 * sin e) \<le> 30 / (111 * (16 / 10000))"
    using s by (intro divide_left_mono mult_left_mono mult_pos_pos) simp_all
  then have w: "30 / (111 * sin e) < 180" by simp
  have d: "DistanceKm (NewGeoPoint (899 / 10) (- 90)) (NewGeoPoint (899 / 10) 90) \<le> 30"
    using pi_less_4 by (simp add: near_pole_distance)
  have m: "MaxLng (NewBoundingBox (899 / 10) (- 90) 30) < 90"
    using w by (simp add: NewBoundingBox_def kmPerDegLat_def Let_def c)
  from d m show ?thesis
    by (simp add: Contains_def) (simp add: NewBoundingBox_def kmPerDegLat_def Let_def)
qed

end
